theory Spec2Isabelle
  imports Complex_Main
begin

section \<open>Predictor: \<open>models/top30_hr_predictor.py\<close>\<close>

text \<open>
  The player table after the four overlays, one record per row. Only the columns that
  \<open>generate_top30_predictions\<close> reads or projects are kept; \<open>Barrel%\<close> and
  \<open>LaunchAngleSweetSpot%\<close> are spelled \<open>Barrel_pct\<close> and
  \<open>LaunchAngleSweetSpot_pct\<close>. The float columns are real numbers: rounding, infinities
  and NaN of the machine floats are outside this model.
\<close>

record player_row =
  Player :: string
  Team :: string
  Opponent :: string
  Barrel_pct :: real
  LaunchAngleSweetSpot_pct :: real
  xISO :: real
  WeatherBoost :: real
  ParkFactorBoost :: real
  PitcherHRBoost :: real
  HotStreakBoost :: real

record scored_row = player_row +
  HR_Score :: real

record pred_row = scored_row +
  Confidence :: string

text \<open>Step 3 of the source: the weighted sum that becomes the column \<open>HR_Score\<close>.\<close>

definition hr_score :: "player_row \<Rightarrow> real" where
  "hr_score r =
     0.4 * Barrel_pct r + 0.3 * LaunchAngleSweetSpot_pct r + 0.2 * xISO r
       + 0.1 * WeatherBoost r + ParkFactorBoost r + PitcherHRBoost r + HotStreakBoost r"

definition add_HR_Score :: "player_row \<Rightarrow> scored_row" where
  "add_HR_Score r =
     \<lparr>Player = Player r, Team = Team r, Opponent = Opponent r,
      Barrel_pct = Barrel_pct r, LaunchAngleSweetSpot_pct = LaunchAngleSweetSpot_pct r,
      xISO = xISO r, WeatherBoost = WeatherBoost r, ParkFactorBoost = ParkFactorBoost r,
      PitcherHRBoost = PitcherHRBoost r, HotStreakBoost = HotStreakBoost r,
      HR_Score = hr_score r\<rparr>"

text \<open>
  Step 4: \<open>sort_values(by='HR_Score', ascending=False).head(30)\<close>. The sort is the
  insertion sort of the library on the negated score, which keeps rows of equal score in
  their input order. The default sort of pandas promises no order among rows of equal
  score; the properties proved below hold for any order among them.
\<close>

definition sort_values_desc :: "scored_row list \<Rightarrow> scored_row list" where
  "sort_values_desc rows = sort_key (\<lambda>r. - HR_Score r) rows"

definition head :: "nat \<Rightarrow> 'a list \<Rightarrow> 'a list" where
  "head n rows = take n rows"

definition top30_of :: "player_row list \<Rightarrow> scored_row list" where
  "top30_of player_df = head 30 (sort_values_desc (map add_HR_Score player_df))"

text \<open>
  \<open>np.percentile(a, q)\<close> with the default linear interpolation: on the ascending sample,
  the virtual index \<open>(n - 1) * q / 100\<close> is split into its floor and its fractional
  part, and the value lies that fraction of the way from one order statistic to the next.
  An empty sample has no order statistic and a \<open>q\<close> outside \<open>[0, 100]\<close> is rejected by
  numpy: both are \<open>None\<close> here.
\<close>

definition percentile :: "real list \<Rightarrow> real \<Rightarrow> real option" where
  "percentile a q =
     (if a = [] \<or> q < 0 \<or> 100 < q then None
      else
        let arr = sort a;
            n = length arr;
            virtual_index = real (n - 1) * (q / 100);
            previous_index = nat \<lfloor>virtual_index\<rfloor>;
            next_index = min (previous_index + 1) (n - 1);
            gamma = virtual_index - real previous_index
        in Some (arr ! previous_index + (arr ! next_index - arr ! previous_index) * gamma))"

text \<open>Step 5: \<open>np.select(conditions, choices, default='B+')\<close>, first true condition wins.\<close>

definition select_confidence :: "real \<Rightarrow> real \<Rightarrow> real \<Rightarrow> real \<Rightarrow> string" where
  "select_confidence c90 c75 c60 score =
     (if score \<ge> c90 then ''A+''
      else if score \<ge> c75 then ''A''
      else if score \<ge> c60 then ''A-''
      else ''B+'')"

definition add_Confidence :: "string \<Rightarrow> scored_row \<Rightarrow> pred_row" where
  "add_Confidence c r =
     \<lparr>Player = Player r, Team = Team r, Opponent = Opponent r,
      Barrel_pct = Barrel_pct r, LaunchAngleSweetSpot_pct = LaunchAngleSweetSpot_pct r,
      xISO = xISO r, WeatherBoost = WeatherBoost r, ParkFactorBoost = ParkFactorBoost r,
      PitcherHRBoost = PitcherHRBoost r, HotStreakBoost = HotStreakBoost r,
      HR_Score = HR_Score r, Confidence = c\<rparr>"

definition tag_confidence :: "scored_row list \<Rightarrow> pred_row list option" where
  "tag_confidence top30 =
     (case (percentile (map HR_Score top30) 90,
            percentile (map HR_Score top30) 75,
            percentile (map HR_Score top30) 60) of
        (Some c90, Some c75, Some c60) \<Rightarrow>
          Some (map (\<lambda>r. add_Confidence (select_confidence c90 c75 c60 (HR_Score r)) r) top30)
      | _ \<Rightarrow> None)"

text \<open>
  The function from the overlaid table to the returned \<open>top30\<close>; the CSV files it writes
  hold this table and its projection on five columns.
\<close>

definition generate_top30_predictions :: "player_row list \<Rightarrow> pred_row list option" where
  "generate_top30_predictions player_df = tag_confidence (top30_of player_df)"

definition confidence_labels :: "string list" where
  "confidence_labels = [''A+'', ''A'', ''A-'', ''B+'']"

section \<open>Errors of the Python run time\<close>

text \<open>
  The exceptions the modelled code can raise: a missing dictionary key or column label,
  a comparison between a string and a number, a merge that would overwrite a column, and
  a division by zero.
\<close>

datatype error = KeyError string | TypeError | ValueError | ZeroDivisionError

definition bind_error :: "error + 'a \<Rightarrow> ('a \<Rightarrow> error + 'b) \<Rightarrow> error + 'b" where
  "bind_error m f = (case m of Inl e \<Rightarrow> Inl e | Inr x \<Rightarrow> f x)"

text \<open>\<open>d[k]\<close> on a dictionary.\<close>

definition dict_get :: "(string \<rightharpoonup> 'v) \<Rightarrow> string \<Rightarrow> error + 'v" where
  "dict_get d k = (case d k of None \<Rightarrow> Inl (KeyError k) | Some v \<Rightarrow> Inr v)"

text \<open>\<open>a / b\<close> on two lengths: true division, which raises on a zero divisor.\<close>

definition py_truediv :: "nat \<Rightarrow> nat \<Rightarrow> error + real" where
  "py_truediv a b = (if b = 0 then Inl ZeroDivisionError else Inr (real a / real b))"

text \<open>
  A loop \<open>for x in xs: results.append(f(x))\<close> whose body may raise: the first exception
  ends the loop.
\<close>

fun append_each :: "('a \<Rightarrow> error + 'b) \<Rightarrow> 'a list \<Rightarrow> 'b list \<Rightarrow> error + 'b list" where
  "append_each f [] results = Inr results"
| "append_each f (x # xs) results =
     (case f x of Inl e \<Rightarrow> Inl e | Inr y \<Rightarrow> append_each f xs (results @ [y]))"

section \<open>Parlay Builder: \<open>models/parlay_stack_builder.py\<close>\<close>

record parlay_stack =
  Player1 :: string
  Team1 :: string
  Player2 :: string
  Team2 :: string
  Combined_Score :: real
  Player1_Confidence :: string
  Player2_Confidence :: string

text \<open>\<open>itertools.combinations(xs, 2)\<close>: the pairs in lexicographic order of position.\<close>

fun combinations2 :: "'a list \<Rightarrow> ('a \<times> 'a) list" where
  "combinations2 [] = []"
| "combinations2 (x # xs) = map (Pair x) xs @ combinations2 xs"

definition confidence_value :: "string \<rightharpoonup> real" where
  "confidence_value = map_of [(''A+'', 0.15), (''A'', 0.10), (''A-'', 0.05), (''B+'', 0.0)]"

text \<open>
  The body of the loop over \<open>player_combos\<close> for a pair that is not skipped: the product
  of the two scores, times one plus the two bonuses. The bonus of \<open>player1\<close> is looked up
  first.
\<close>

definition make_stack :: "pred_row \<Rightarrow> pred_row \<Rightarrow> error + parlay_stack" where
  "make_stack player1 player2 =
     bind_error (dict_get confidence_value (Confidence player1)) (\<lambda>bonus1.
     bind_error (dict_get confidence_value (Confidence player2)) (\<lambda>bonus2.
       Inr \<lparr>Player1 = Player player1, Team1 = Team player1,
            Player2 = Player player2, Team2 = Team player2,
            Combined_Score = HR_Score player1 * HR_Score player2 * (1 + bonus1 + bonus2),
            Player1_Confidence = Confidence player1,
            Player2_Confidence = Confidence player2\<rparr>))"

text \<open>
  The loop itself. \<open>top20\<close> was read from a CSV file, so its index is \<open>0, 1, ...\<close> and
  \<open>top20.iloc[i]\<close> is the row at position \<open>i\<close>; every position of a combination is in
  range.
\<close>

fun stacks_loop ::
  "pred_row list \<Rightarrow> (nat \<times> nat) list \<Rightarrow> parlay_stack list \<Rightarrow> error + parlay_stack list" where
  "stacks_loop top20 [] stacks = Inr stacks"
| "stacks_loop top20 (combo # player_combos) stacks =
     (let player1 = top20 ! fst combo; player2 = top20 ! snd combo
      in if Team player1 = Team player2 then stacks_loop top20 player_combos stacks
         else case make_stack player1 player2 of
                Inl e \<Rightarrow> Inl e
              | Inr stack \<Rightarrow> stacks_loop top20 player_combos (stacks @ [stack]))"

text \<open>
  \<open>pd.DataFrame(stacks).sort_values('Combined_Score', ascending=False)\<close>: a frame built
  from an empty list has no columns, and sorting it by a column raises \<open>KeyError\<close>.
\<close>

definition sort_stacks :: "parlay_stack list \<Rightarrow> error + parlay_stack list" where
  "sort_stacks stacks =
     (if stacks = [] then Inl (KeyError ''Combined_Score'')
      else Inr (sort_key (\<lambda>s. - Combined_Score s) stacks))"

definition player_combos_of :: "pred_row list \<Rightarrow> (nat \<times> nat) list" where
  "player_combos_of top20 = combinations2 [0..<length top20]"

text \<open>
  The argument is the content of \<open>apex_top30_full_{today}.csv\<close>, \<open>None\<close> when the file
  does not exist; the function then returns \<open>None\<close>.
\<close>

definition build_parlay_stacks :: "pred_row list option \<Rightarrow> error + parlay_stack list option" where
  "build_parlay_stacks input_file =
     (case input_file of
        None \<Rightarrow> Inr None
      | Some top30 \<Rightarrow>
          let top20 = head 20 top30 in
          bind_error (stacks_loop top20 (player_combos_of top20) []) (\<lambda>stacks.
          bind_error (sort_stacks stacks) (\<lambda>stacks_df.
            Inr (Some (head 15 stacks_df)))))"

text \<open>
  The test of the loop, on positions: the two players of the pair are of different teams.
\<close>

definition cross_team :: "pred_row list \<Rightarrow> nat \<times> nat \<Rightarrow> bool" where
  "cross_team top20 combo = (Team (top20 ! fst combo) \<noteq> Team (top20 ! snd combo))"

section \<open>Data frames\<close>

text \<open>
  The Tracker and the Diagnostics work on tables read from CSV files, whose columns are
  whatever the files hold. A frame is its column labels and its rows, each row a list of
  cells in column order; a row taken out of a frame (a pandas \<open>Series\<close>, or a Python
  dictionary) is a list of labelled cells. Numbers are real numbers.
\<close>

datatype cell = Str string | Num real | Bool bool | NaN

record dataframe =
  df_columns :: "string list"
  df_rows :: "cell list list"

type_synonym series = "(string \<times> cell) list"

definition wf_dataframe :: "dataframe \<Rightarrow> bool" where
  "wf_dataframe df =
     (distinct (df_columns df) \<and> list_all (\<lambda>r. length r = length (df_columns df)) (df_rows df))"

definition len :: "dataframe \<Rightarrow> nat" where
  "len df = length (df_rows df)"

definition iterrows :: "dataframe \<Rightarrow> series list" where
  "iterrows df = map (zip (df_columns df)) (df_rows df)"

text \<open>\<open>s[k]\<close> and \<open>k in s\<close> on a row.\<close>

definition series_get :: "series \<Rightarrow> string \<Rightarrow> error + cell" where
  "series_get s k = dict_get (map_of s) k"

definition series_has :: "series \<Rightarrow> string \<Rightarrow> bool" where
  "series_has s k = (k \<in> set (map fst s))"

text \<open>\<open>x > 1\<close> on a cell: a string cannot be compared with a number, NaN compares false.\<close>

definition gt_one :: "cell \<Rightarrow> error + bool" where
  "gt_one x =
     (case x of
        Num n \<Rightarrow> Inr (n > 1)
      | Bool b \<Rightarrow> Inr False
      | NaN \<Rightarrow> Inr False
      | Str s \<Rightarrow> Inl TypeError)"

text \<open>
  \<open>pd.DataFrame(records)\<close> on a list of dictionaries that all have the same keys in the
  same order, as the records of the Tracker have; no record, no column.
\<close>

definition DataFrame :: "series list \<Rightarrow> dataframe" where
  "DataFrame records =
     \<lparr>df_columns = (case records of [] \<Rightarrow> [] | d # _ \<Rightarrow> map fst d),
      df_rows = map (map snd) records\<rparr>"

text \<open>\<open>df[df[k] == v]\<close>: the rows whose cell under \<open>k\<close> is \<open>v\<close>.\<close>

definition where_eq :: "dataframe \<Rightarrow> string \<Rightarrow> cell \<Rightarrow> error + dataframe" where
  "where_eq df k v =
     (if k \<notin> set (df_columns df) then Inl (KeyError k)
      else Inr (df\<lparr>df_rows := filter (\<lambda>r. map_of (zip (df_columns df) r) k = Some v) (df_rows df)\<rparr>))"

text \<open>
  \<open>pd.concat(frames, ignore_index=True)\<close>: the columns are the union of the frames'
  columns in order of first appearance, and a row has NaN under a column its frame lacks.
\<close>

definition reindex :: "string list \<Rightarrow> series \<Rightarrow> cell list" where
  "reindex cols s = map (\<lambda>c. case map_of s c of None \<Rightarrow> NaN | Some v \<Rightarrow> v) cols"

definition pd_concat :: "dataframe list \<Rightarrow> dataframe" where
  "pd_concat frames =
     (let cols = rev (remdups (rev (concat (map df_columns frames))))
      in \<lparr>df_columns = cols,
          df_rows = concat (map (\<lambda>df. map (reindex cols) (iterrows df)) frames)\<rparr>)"

subsection \<open>\<open>pd.merge(left, right, on=key, how=..., indicator=...)\<close>\<close>

datatype how = Inner_join | Left_join

text \<open>
  A column other than the key that both frames have gets the suffix \<open>_x\<close> on the left
  and \<open>_y\<close> on the right.
\<close>

definition suffixed :: "string list \<Rightarrow> string \<Rightarrow> string \<Rightarrow> string \<Rightarrow> string" where
  "suffixed other_columns on suffix c =
     (if c \<noteq> on \<and> c \<in> set other_columns then c @ suffix else c)"

definition key_of :: "string list \<Rightarrow> string \<Rightarrow> cell list \<Rightarrow> cell option" where
  "key_of cols on r = map_of (zip cols r) on"

definition without_key :: "string list \<Rightarrow> string \<Rightarrow> cell list \<Rightarrow> cell list" where
  "without_key cols on r = map snd (filter (\<lambda>(c, v). c \<noteq> on) (zip cols r))"

definition matches :: "dataframe \<Rightarrow> dataframe \<Rightarrow> string \<Rightarrow> cell list \<Rightarrow> cell list list" where
  "matches left right on l =
     filter (\<lambda>r. key_of (df_columns right) on r = key_of (df_columns left) on l) (df_rows right)"

text \<open>
  The rows of the result that come from one row of the left frame: one per matching row
  of the right frame, in the order of the right frame, or for a left join with no match
  the left row with NaN under the right frame's columns. With \<open>indicator=True\<close> a last
  column \<open>_merge\<close> tells which case it was.
\<close>

definition merged_rows ::
  "dataframe \<Rightarrow> dataframe \<Rightarrow> string \<Rightarrow> how \<Rightarrow> bool \<Rightarrow> cell list \<Rightarrow> cell list list" where
  "merged_rows left right on h indicator l =
     (let ms = matches left right on l
      in if ms = [] then
           (case h of
              Inner_join \<Rightarrow> []
            | Left_join \<Rightarrow>
                [l @ map (\<lambda>c. NaN) (filter (\<lambda>c. c \<noteq> on) (df_columns right))
                   @ (if indicator then [Str ''left_only''] else [])])
         else map (\<lambda>r. l @ without_key (df_columns right) on r
                          @ (if indicator then [Str ''both''] else [])) ms)"

definition merged_columns :: "dataframe \<Rightarrow> dataframe \<Rightarrow> string \<Rightarrow> bool \<Rightarrow> string list" where
  "merged_columns left right on indicator =
     map (suffixed (df_columns right) on ''_x'') (df_columns left)
       @ map (suffixed (df_columns left) on ''_y'') (filter (\<lambda>c. c \<noteq> on) (df_columns right))
       @ (if indicator then [''_merge''] else [])"

text \<open>
  The merge raises \<open>KeyError\<close> when a frame lacks the key column, and \<open>ValueError\<close> when
  the indicator column would overwrite a column named \<open>_merge\<close>. The result keeps the
  order of the left frame.
\<close>

definition pd_merge ::
  "dataframe \<Rightarrow> dataframe \<Rightarrow> string \<Rightarrow> how \<Rightarrow> bool \<Rightarrow> error + dataframe" where
  "pd_merge left right on h indicator =
     (if on \<notin> set (df_columns left) \<or> on \<notin> set (df_columns right) then Inl (KeyError on)
      else if indicator \<and> (''_merge'' \<in> set (df_columns left) \<or> ''_merge'' \<in> set (df_columns right))
        then Inl ValueError
      else Inr \<lparr>df_columns = merged_columns left right on indicator,
                df_rows = concat (map (merged_rows left right on h indicator) (df_rows left))\<rparr>)"

section \<open>Outcome Tracker: \<open>trackers/hr_tracker.py\<close>\<close>

text \<open>
  What the function prints. The status line \<open>Tracking Complete\<close> formats two floats and
  is kept as the two numbers. The lines that \<open>get_actual_hr_data\<close> prints are not part of
  the model.
\<close>

datatype log_line = Print string | Print_rates real real

text \<open>
  The files the Tracker reads: the prediction table of the target date, the latest
  prediction table and the cumulative tracking table, each \<open>None\<close> when the file does
  not exist.
\<close>

record tracker_files =
  prediction_file_dated :: "dataframe option"
  prediction_file_latest :: "dataframe option"
  cumulative_tracking :: "dataframe option"

text \<open>
  What a run leaves behind: the printed lines, the returned value, the daily tracking
  file it wrote (\<open>None\<close> when it wrote none) and the cumulative tracking file after the
  run.
\<close>

record tracker_result =
  printed :: "log_line list"
  returned :: "dataframe option"
  tracking_file :: "dataframe option"
  cumulative_file :: "dataframe option"

text \<open>The three dictionaries appended to \<open>tracking_results\<close>, one per loop.\<close>

definition hit_record :: "string \<Rightarrow> series \<Rightarrow> error + series" where
  "hit_record yesterday hit =
     bind_error (series_get hit ''Player'') (\<lambda>player.
     bind_error (series_get hit ''Team_x'') (\<lambda>team.
     bind_error (series_get hit ''HR_Score'') (\<lambda>hr_score.
     bind_error (series_get hit ''Confidence'') (\<lambda>confidence.
     bind_error (series_get hit ''HR_Count'') (\<lambda>actual_hr.
     bind_error (bind_error (series_get hit ''HR_Count'') gt_one) (\<lambda>multiple_hr.
       Inr [(''Date'', Str yesterday), (''Player'', player), (''Team'', team),
            (''HR_Score'', hr_score), (''Confidence'', confidence),
            (''Actual_HR'', actual_hr), (''Result'', Str ''Hit''),
            (''Multiple_HR'', Bool multiple_hr)]))))))"

definition miss_record :: "string \<Rightarrow> series \<Rightarrow> error + series" where
  "miss_record yesterday miss =
     bind_error (series_get miss ''Player'') (\<lambda>player.
     bind_error (if series_has miss ''Team'' then series_get miss ''Team''
                 else Inr (Str ''Unknown'')) (\<lambda>team.
     bind_error (if series_has miss ''HR_Score'' then series_get miss ''HR_Score''
                 else Inr (Num 0)) (\<lambda>hr_score.
     bind_error (if series_has miss ''Confidence'' then series_get miss ''Confidence''
                 else Inr (Str ''None'')) (\<lambda>confidence.
       Inr [(''Date'', Str yesterday), (''Player'', player), (''Team'', team),
            (''HR_Score'', hr_score), (''Confidence'', confidence),
            (''Actual_HR'', Num 0), (''Result'', Str ''Miss''),
            (''Multiple_HR'', Bool False)]))))"

definition surprise_record :: "string \<Rightarrow> series \<Rightarrow> error + series" where
  "surprise_record yesterday surprise =
     (let team_col = (if series_has surprise ''Team_x'' then ''Team_x'' else ''Team'')
      in bind_error (series_get surprise ''Player'') (\<lambda>player.
         bind_error (if series_has surprise team_col then series_get surprise team_col
                     else Inr (Str ''Unknown'')) (\<lambda>team.
         bind_error (if series_has surprise ''HR_Count'' then series_get surprise ''HR_Count''
                     else Inr (Num 1)) (\<lambda>actual_hr.
         bind_error (if series_has surprise ''HR_Count''
                     then bind_error (series_get surprise ''HR_Count'') gt_one
                     else Inr False) (\<lambda>multiple_hr.
           Inr [(''Date'', Str yesterday), (''Player'', player), (''Team'', team),
                (''HR_Score'', Num 0), (''Confidence'', Str ''None''),
                (''Actual_HR'', actual_hr), (''Result'', Str ''Surprise''),
                (''Multiple_HR'', Bool multiple_hr)])))))"

text \<open>\<open>a / b if b > 0 else 0\<close>, the guarded rate of the Tracker and of the Diagnostics.\<close>

definition rate :: "nat \<Rightarrow> nat \<Rightarrow> error + real" where
  "rate a b = (if b > 0 then py_truediv a b else Inr 0)"

text \<open>
  The function from the point where \<open>predictions\<close> has been loaded. \<open>actual_hr_data\<close> is
  what \<open>get_actual_hr_data(yesterday)\<close> returned: a table read from a file or drawn at
  random, or \<open>None\<close> after three failed attempts.
\<close>

definition reconcile ::
  "string \<Rightarrow> dataframe option \<Rightarrow> log_line list \<Rightarrow> dataframe \<Rightarrow> dataframe option
     \<Rightarrow> error + tracker_result" where
  "reconcile yesterday cumulative out predictions actual_hr_data =
     (let no_data =
            Inr \<lparr>printed = out @ [Print (''WARNING: No actual HR data available for '' @ yesterday)],
                 returned = None, tracking_file = None, cumulative_file = cumulative\<rparr>
      in case actual_hr_data of
           None \<Rightarrow> no_data
         | Some actual \<Rightarrow>
             if len actual = 0 then no_data
             else
               bind_error (pd_merge predictions actual ''Player'' Inner_join False) (\<lambda>hits.
               bind_error (append_each (hit_record yesterday) (iterrows hits) []) (\<lambda>results1.
               bind_error (pd_merge predictions actual ''Player'' Left_join True) (\<lambda>merged1.
               bind_error (where_eq merged1 ''_merge'' (Str ''left_only'')) (\<lambda>misses.
               bind_error (append_each (miss_record yesterday) (iterrows misses) results1) (\<lambda>results2.
               bind_error (pd_merge actual predictions ''Player'' Left_join True) (\<lambda>merged2.
               bind_error (where_eq merged2 ''_merge'' (Str ''left_only'')) (\<lambda>surprises.
               bind_error (append_each (surprise_record yesterday) (iterrows surprises) results2)
                 (\<lambda>tracking_results.
               let tracking_df = DataFrame tracking_results;
                   cumulative_df = (case cumulative of
                                      Some old \<Rightarrow> pd_concat [old, tracking_df]
                                    | None \<Rightarrow> tracking_df)
               in
               bind_error (rate (len hits) (len predictions)) (\<lambda>hit_rate.
               bind_error (rate (len surprises) (len hits + len surprises)) (\<lambda>surprise_rate.
                 Inr \<lparr>printed = out @ [Print_rates hit_rate surprise_rate,
                                      Print (''>> Results saved to data/output/tracking/tracking_''
                                               @ yesterday @ ''.csv'')],
                      returned = Some tracking_df,
                      tracking_file = Some tracking_df,
                      cumulative_file = Some cumulative_df\<rparr>)))))))))))"

definition track_home_runs ::
  "string \<Rightarrow> tracker_files \<Rightarrow> dataframe option \<Rightarrow> error + tracker_result" where
  "track_home_runs yesterday files actual_hr_data =
     (let prediction_file = ''data/output/apex_top30_'' @ yesterday @ ''.csv'';
          out = [Print ''>> Tracking Today's Home Runs...'']
      in case prediction_file_dated files of
           Some predictions \<Rightarrow>
             reconcile yesterday (cumulative_tracking files) out predictions actual_hr_data
         | None \<Rightarrow>
             (let out = out @ [Print (''WARNING: Prediction file '' @ prediction_file
                                        @ '' not found. Trying latest predictions...'')]
              in case prediction_file_latest files of
                   None \<Rightarrow>
                     Inr \<lparr>printed = out @ [Print ''ERROR: No prediction file found. Cannot track home runs.''],
                          returned = None, tracking_file = None,
                          cumulative_file = cumulative_tracking files\<rparr>
                 | Some predictions \<Rightarrow>
                     reconcile yesterday (cumulative_tracking files) out predictions actual_hr_data))"

text \<open>The sizes of the three partitions in a tracking table, read off its \<open>Result\<close> column.\<close>

definition result_rows :: "dataframe \<Rightarrow> string \<Rightarrow> cell list list" where
  "result_rows df label =
     filter (\<lambda>r. map_of (zip (df_columns df) r) ''Result'' = Some (Str label)) (df_rows df)"

text \<open>The columns of a tracking table, in the order of the keys of a record.\<close>

definition tracking_columns :: "string list" where
  "tracking_columns =
     [''Date'', ''Player'', ''Team'', ''HR_Score'', ''Confidence'', ''Actual_HR'', ''Result'',
      ''Multiple_HR'']"

text \<open>The prediction table a run works on: the dated file, else the latest one.\<close>

definition predictions_of :: "tracker_files \<Rightarrow> dataframe option" where
  "predictions_of files =
     (case prediction_file_dated files of
        Some predictions \<Rightarrow> Some predictions
      | None \<Rightarrow> prediction_file_latest files)"

text \<open>A run without what it printed: the returned table and the two files.\<close>

definition outcome_of ::
  "error + tracker_result \<Rightarrow> error + (dataframe option \<times> dataframe option \<times> dataframe option)" where
  "outcome_of run =
     map_sum id (\<lambda>res. (returned res, tracking_file res, cumulative_file res)) run"

section \<open>Diagnostics: \<open>trackers/shadow_diagnostics.py\<close>\<close>






section \<open>Sample tables\<close>

text \<open>
  Thirty players of thirty different teams, before scoring and as a scored and labelled
  table; the theorems below are applied to them.
\<close>

definition mlb_teams :: "string list" where
  "mlb_teams =
     [''NYY'', ''BOS'', ''LAD'', ''HOU'', ''ATL'', ''CHC'', ''NYM'', ''PHI'', ''SD'', ''TB'',
      ''LAA'', ''TOR'', ''TEX'', ''KC'', ''CLE'', ''BAL'', ''SEA'', ''MIN'', ''DET'', ''MIA'',
      ''ARI'', ''COL'', ''SF'', ''OAK'', ''CIN'', ''MIL'', ''PIT'', ''STL'', ''WSH'', ''CWS'']"

definition demo_player :: "nat \<times> string \<Rightarrow> player_row" where
  "demo_player = (\<lambda>(i, t).
     \<lparr>Player = ''Player '' @ t, Team = t, Opponent = ''NYY'',
      Barrel_pct = 5 + real (i mod 7), LaunchAngleSweetSpot_pct = 25 + real (i mod 4),
      xISO = 0.2, WeatherBoost = 0.5, ParkFactorBoost = 0.1,
      PitcherHRBoost = 0, HotStreakBoost = real (i mod 3) / 10\<rparr>)"

definition demo_player_df :: "player_row list" where
  "demo_player_df = map demo_player (enumerate 0 mlb_teams)"

definition demo_pred :: "nat \<times> string \<Rightarrow> pred_row" where
  "demo_pred = (\<lambda>(i, t).
     add_Confidence
       (if i < 3 then ''A+'' else if i < 8 then ''A'' else if i < 12 then ''A-'' else ''B+'')
       ((add_HR_Score (demo_player (i, t)))\<lparr>HR_Score := 13 - real i / 10\<rparr>))"

definition demo_top30 :: "pred_row list" where
  "demo_top30 = map demo_pred (enumerate 0 mlb_teams)"

text \<open>Three players, the second with a label that is not a tier.\<close>

definition demo_bad_tier :: "pred_row list" where
  "demo_bad_tier =
     [demo_pred (0, ''NYY''), (demo_pred (1, ''BOS''))\<lparr>Confidence := ''C''\<rparr>, demo_pred (2, ''LAD'')]"

text \<open>
  The scenario of the specification: \<open>A\<close> and \<open>B\<close> are predicted, \<open>A\<close> and \<open>C\<close> hit a
  home run, \<open>C\<close> two of them. The tracking table is what the Tracker returns on it.
\<close>

definition demo_predictions :: dataframe where
  "demo_predictions =
     \<lparr>df_columns = [''Player'', ''Team'', ''Opponent'', ''HR_Score'', ''Confidence''],
      df_rows = [[Str ''A'', Str ''NYY'', Str ''BOS'', Num 0.9, Str ''A+''],
                 [Str ''B'', Str ''BOS'', Str ''NYY'', Num 0.5, Str ''B+'']]\<rparr>"

definition demo_outcomes :: dataframe where
  "demo_outcomes =
     \<lparr>df_columns = [''Player'', ''Team'', ''HR_Count'', ''Date''],
      df_rows = [[Str ''A'', Str ''NYY'', Num 1, Str ''2024-05-01''],
                 [Str ''C'', Str ''LAD'', Num 2, Str ''2024-05-01'']]\<rparr>"

definition demo_tracking :: dataframe where
  "demo_tracking =
     \<lparr>df_columns = [''Date'', ''Player'', ''Team'', ''HR_Score'', ''Confidence'', ''Actual_HR'',
                    ''Result'', ''Multiple_HR''],
      df_rows = [[Str ''2024-05-01'', Str ''A'', Str ''NYY'', Num 0.9, Str ''A+'', Num 1,
                  Str ''Hit'', Bool False],
                 [Str ''2024-05-01'', Str ''B'', Str ''Unknown'', Num 0.5, Str ''B+'', Num 0,
                  Str ''Miss'', Bool False],
                 [Str ''2024-05-01'', Str ''C'', Str ''LAD'', Num 0, Str ''None'', Num 2,
                  Str ''Surprise'', Bool True]]\<rparr>"

definition demo_files :: tracker_files where
  "demo_files = \<lparr>prediction_file_dated = Some demo_predictions,
                  prediction_file_latest = None, cumulative_tracking = None\<rparr>"

definition demo_files_latest_only :: tracker_files where
  "demo_files_latest_only = \<lparr>prediction_file_dated = None,
                  prediction_file_latest = Some demo_predictions, cumulative_tracking = None\<rparr>"

text \<open>
  One predicted player, and an outcome table in which two players of different teams
  have his name; the tracking table is what the Tracker returns on them.
\<close>

definition demo_one_prediction :: dataframe where
  "demo_one_prediction =
     \<lparr>df_columns = [''Player'', ''Team'', ''Opponent'', ''HR_Score'', ''Confidence''],
      df_rows = [[Str ''Will Smith'', Str ''LAD'', Str ''SD'', Num 0.9, Str ''A+'']]\<rparr>"

definition demo_two_outcomes :: dataframe where
  "demo_two_outcomes =
     \<lparr>df_columns = [''Player'', ''Team'', ''HR_Count'', ''Date''],
      df_rows = [[Str ''Will Smith'', Str ''LAD'', Num 1, Str ''2024-05-01''],
                 [Str ''Will Smith'', Str ''ATL'', Num 1, Str ''2024-05-01'']]\<rparr>"

definition demo_two_hits :: dataframe where
  "demo_two_hits =
     \<lparr>df_columns = [''Date'', ''Player'', ''Team'', ''HR_Score'', ''Confidence'', ''Actual_HR'',
                    ''Result'', ''Multiple_HR''],
      df_rows = [[Str ''2024-05-01'', Str ''Will Smith'', Str ''LAD'', Num 0.9, Str ''A+'', Num 1,
                  Str ''Hit'', Bool False],
                 [Str ''2024-05-01'', Str ''Will Smith'', Str ''LAD'', Num 0.9, Str ''A+'', Num 1,
                  Str ''Hit'', Bool False]]\<rparr>"

text \<open>An outcome table without a \<open>Team\<close> column.\<close>

definition demo_outcomes_no_team :: dataframe where
  "demo_outcomes_no_team =
     \<lparr>df_columns = [''Player'', ''HR_Count'', ''Date''],
      df_rows = [[Str ''C'', Num 2, Str ''2024-05-01'']]\<rparr>"




section \<open>Properties of the Predictor\<close>

lemma sorted_wrt_ge_uminus:
  "sorted (map (\<lambda>r. - f r) xs) = sorted_wrt (\<lambda>a b. f a \<ge> (f b :: real)) xs"
  by (induction xs) auto

lemma sort_values_desc_sorted:
  "sorted_wrt (\<lambda>a b. HR_Score a \<ge> HR_Score b) (sort_values_desc rows)"
  unfolding sort_values_desc_def sorted_wrt_ge_uminus [symmetric]
  by (rule sorted_sort_key)

lemma top30_of_sorted: "sorted_wrt (\<ge>) (map HR_Score (top30_of player_df))"
  unfolding top30_of_def head_def sorted_wrt_map
  by (rule sorted_wrt_take) (rule sort_values_desc_sorted)

lemma length_top30_of: "length (top30_of player_df) = min 30 (length player_df)"
  by (simp add: top30_of_def head_def sort_values_desc_def min.commute)


lemma percentile_Some:
  "a \<noteq> [] \<Longrightarrow> 0 \<le> q \<Longrightarrow> q \<le> 100 \<Longrightarrow> \<exists>c. percentile a q = Some c"
  by (simp add: percentile_def Let_def)


lemma HR_Score_add_Confidence [simp]: "HR_Score (add_Confidence c r) = HR_Score r"
  by (simp add: add_Confidence_def)

lemma Confidence_add_Confidence [simp]: "Confidence (add_Confidence c r) = c"
  by (simp add: add_Confidence_def)

lemma tag_confidence_Some:
  assumes "top30 \<noteq> []"
  shows "\<exists>c90 c75 c60. percentile (map HR_Score top30) 90 = Some c90
     \<and> percentile (map HR_Score top30) 75 = Some c75
     \<and> percentile (map HR_Score top30) 60 = Some c60
     \<and> tag_confidence top30 =
         Some (map (\<lambda>r. add_Confidence (select_confidence c90 c75 c60 (HR_Score r)) r) top30)"
proof -
  from assms have ne: "map HR_Score top30 \<noteq> []" by simp
  obtain c90 where a: "percentile (map HR_Score top30) 90 = Some c90"
    using percentile_Some [OF ne, of 90] by auto
  obtain c75 where b: "percentile (map HR_Score top30) 75 = Some c75"
    using percentile_Some [OF ne, of 75] by auto
  obtain c60 where c: "percentile (map HR_Score top30) 60 = Some c60"
    using percentile_Some [OF ne, of 60] by auto
  show ?thesis using a b c by (simp add: tag_confidence_def)
qed

lemma tag_confidence_SomeD:
  assumes "tag_confidence top30 = Some out"
  shows "\<exists>c90 c75 c60. percentile (map HR_Score top30) 90 = Some c90
     \<and> percentile (map HR_Score top30) 75 = Some c75
     \<and> percentile (map HR_Score top30) 60 = Some c60
     \<and> out = map (\<lambda>r. add_Confidence (select_confidence c90 c75 c60 (HR_Score r)) r) top30"
  using assms by (auto simp: tag_confidence_def split: option.splits)

lemma tagged_scores:
  "tag_confidence top30 = Some out \<Longrightarrow> map HR_Score out = map HR_Score top30"
  by (auto dest!: tag_confidence_SomeD simp: comp_def)




lemma demo_player_df_length: "length demo_player_df = 30"
  by (simp add: demo_player_df_def mlb_teams_def)

text \<open>
  The Predictor on the first four sample players: the rows come out by falling score,
  and the cutoffs of these four scores (11.64, 11.415 and 11.13) give one \<open>A+\<close>, one
  \<open>A-\<close> and two \<open>B+\<close>.
\<close>

lemma generate_top30_predictions_example:
  "map_option (map (\<lambda>r. (Team r, HR_Score r, Confidence r)))
     (generate_top30_predictions (take 4 demo_player_df))
   = Some [(''HOU'', 1179 / 100, ''A+''), (''LAD'', 1129 / 100, ''A-''),
           (''BOS'', 1049 / 100, ''B+''), (''NYY'', 969 / 100, ''B+'')]"
  by (simp add: generate_top30_predictions_def tag_confidence_def top30_of_def head_def
      sort_values_desc_def demo_player_df_def mlb_teams_def demo_player_def add_HR_Score_def
      hr_score_def percentile_def Let_def add_Confidence_def select_confidence_def)

text \<open>
  Claim C1. On a player table of at least 30 rows, whose metric and boost columns are
  numbers, the Predictor returns a table of exactly 30 rows, and down the table
  \<open>HR_Score\<close> never increases.
\<close>

theorem C1_top30_sorted:
  assumes "30 \<le> length player_df"
  shows "\<exists>top30. generate_top30_predictions player_df = Some top30
           \<and> length top30 = 30 \<and> sorted_wrt (\<ge>) (map HR_Score top30)"
proof -
  have len: "length (top30_of player_df) = 30"
    using assms by (simp add: length_top30_of)
  then have "top30_of player_df \<noteq> []" by auto
  from tag_confidence_Some [OF this] obtain out
    where out: "tag_confidence (top30_of player_df) = Some out" by blast
  have "length out = 30"
    using tagged_scores [OF out] len by (metis length_map)
  moreover have "sorted_wrt (\<ge>) (map HR_Score out)"
    using tagged_scores [OF out] top30_of_sorted by simp
  ultimately show ?thesis
    using out by (simp add: generate_top30_predictions_def)
qed

theorem C1_top30_sorted_witness:
  "30 \<le> length demo_player_df
   \<and> (\<exists>top30. generate_top30_predictions demo_player_df = Some top30
         \<and> length top30 = 30 \<and> sorted_wrt (\<ge>) (map HR_Score top30))"
proof -
  have h: "30 \<le> length demo_player_df" by (simp add: demo_player_df_length)
  from C1_top30_sorted [OF h] h show ?thesis by blast
qed




section \<open>Loops that may raise\<close>

lemma bind_error_Inr_iff:
  "bind_error m f = Inr y \<longleftrightarrow> (\<exists>x. m = Inr x \<and> f x = Inr y)"
  by (cases m) (simp_all add: bind_error_def)


lemma bind_error_simps [simp]:
  "bind_error (Inl e) f = Inl e" "bind_error (Inr x) f = f x"
  by (simp_all add: bind_error_def)

lemma append_each_Inr:
  "append_each f xs acc = Inr out \<longleftrightarrow>
     (\<exists>ys. out = acc @ ys \<and> list_all2 (\<lambda>x y. f x = Inr y) xs ys)"
proof (induction xs arbitrary: acc)
  case Nil
  show ?case by auto
next
  case (Cons x xs)
  show ?case
  proof (cases "f x")
    case (Inl e)
    then show ?thesis by (auto simp: list_all2_Cons1)
  next
    case (Inr y)
    then show ?thesis by (auto simp: Cons.IH list_all2_Cons1)
  qed
qed

lemma append_each_Inl:
  "append_each f xs acc = Inl e \<Longrightarrow> \<exists>x \<in> set xs. f x = Inl e"
  by (induction xs arbitrary: acc) (auto split: sum.splits)

lemma append_each_total:
  "(\<And>x. x \<in> set xs \<Longrightarrow> \<exists>y. f x = Inr y) \<Longrightarrow> \<exists>out. append_each f xs acc = Inr out"
proof (cases "append_each f xs acc")
  case (Inl e)
  assume "\<And>x. x \<in> set xs \<Longrightarrow> \<exists>y. f x = Inr y"
  with append_each_Inl [OF Inl] show ?thesis by fastforce
next
  case (Inr out)
  then show ?thesis by blast
qed


lemma list_all2_member2:
  "list_all2 P xs ys \<Longrightarrow> y \<in> set ys \<Longrightarrow> \<exists>x \<in> set xs. P x y"
  by (induction rule: list_all2_induct) auto

section \<open>Properties of the Parlay Builder\<close>

lemma length_combinations2: "2 * length (combinations2 xs) = length xs * (length xs - 1)"
proof (induction xs)
  case Nil
  show ?case by simp
next
  case (Cons x xs)
  show ?case
  proof (cases xs)
    case Nil
    then show ?thesis by simp
  next
    case (Cons y ys)
    with Cons.IH show ?thesis by (simp add: algebra_simps)
  qed
qed

lemma set_combinations2_upt:
  "set (combinations2 [m..<n]) = {(i, j). m \<le> i \<and> i < j \<and> j < n}"
proof (induction "n - m" arbitrary: m)
  case 0
  then show ?case by auto
next
  case (Suc k)
  then have mn: "m < n" and k: "k = n - Suc m" by auto
  have "[m..<n] = m # [Suc m..<n]" using mn by (simp add: upt_conv_Cons)
  then have "set (combinations2 [m..<n]) = Pair m ` {Suc m..<n} \<union> set (combinations2 [Suc m..<n])"
    by simp
  also have "\<dots> = Pair m ` {Suc m..<n} \<union> {(i, j). Suc m \<le> i \<and> i < j \<and> j < n}"
    using Suc.hyps(1) [OF k] by simp
  also have "\<dots> = {(i, j). m \<le> i \<and> i < j \<and> j < n}"
    by (auto simp: le_Suc_eq)
  finally show ?case .
qed

lemma set_player_combos_of:
  "set (player_combos_of top20) = {(i, j). i < j \<and> j < length top20}"
  by (simp add: player_combos_of_def set_combinations2_upt)

lemma stacks_loop_append_each:
  "stacks_loop top20 combos acc =
     append_each (\<lambda>c. make_stack (top20 ! fst c) (top20 ! snd c))
       (filter (cross_team top20) combos) acc"
  by (induction combos arbitrary: acc) (auto simp: Let_def cross_team_def split: sum.splits)

lemma make_stack_Inr:
  "make_stack p1 p2 = Inr s \<longleftrightarrow>
     (\<exists>b1 b2. confidence_value (Confidence p1) = Some b1 \<and> confidence_value (Confidence p2) = Some b2
        \<and> s = \<lparr>Player1 = Player p1, Team1 = Team p1, Player2 = Player p2, Team2 = Team p2,
              Combined_Score = HR_Score p1 * HR_Score p2 * (1 + b1 + b2),
              Player1_Confidence = Confidence p1, Player2_Confidence = Confidence p2\<rparr>)"
  by (auto simp: make_stack_def dict_get_def bind_error_Inr_iff split: option.splits)


lemma confidence_value_None: "confidence_value k = None \<longleftrightarrow> k \<notin> set confidence_labels"
  by (simp add: confidence_value_def confidence_labels_def)

lemma build_parlay_stacks_Some:
  assumes "build_parlay_stacks input_file = Inr (Some out)"
  shows "\<exists>top30 stacks. input_file = Some top30
           \<and> stacks_loop (head 20 top30) (player_combos_of (head 20 top30)) [] = Inr stacks
           \<and> stacks \<noteq> []
           \<and> out = head 15 (sort_key (\<lambda>s. - Combined_Score s) stacks)"
  using assms
  by (auto simp: build_parlay_stacks_def Let_def bind_error_Inr_iff sort_stacks_def
      split: option.splits if_splits)

lemma stacks_loop_members:
  assumes "stacks_loop top20 combos [] = Inr stacks" and "s \<in> set stacks"
  shows "\<exists>c \<in> set combos. cross_team top20 c \<and> make_stack (top20 ! fst c) (top20 ! snd c) = Inr s"
proof -
  from assms(1) have "list_all2 (\<lambda>c y. make_stack (top20 ! fst c) (top20 ! snd c) = Inr y)
                        (filter (cross_team top20) combos) stacks"
    by (simp add: stacks_loop_append_each append_each_Inr)
  from list_all2_member2 [OF this assms(2)] show ?thesis by auto
qed

lemma stacks_loop_length:
  assumes "stacks_loop top20 combos [] = Inr stacks"
  shows "length stacks = length (filter (cross_team top20) combos)"
  using assms by (auto simp: stacks_loop_append_each append_each_Inr dest: list_all2_lengthD)

lemma emitted_members:
  assumes "build_parlay_stacks (Some top30) = Inr (Some out)" and "s \<in> set out"
  shows "\<exists>c \<in> set (player_combos_of (head 20 top30)). cross_team (head 20 top30) c
           \<and> make_stack (head 20 top30 ! fst c) (head 20 top30 ! snd c) = Inr s"
proof -
  from build_parlay_stacks_Some [OF assms(1)] obtain stacks where
    loop: "stacks_loop (head 20 top30) (player_combos_of (head 20 top30)) [] = Inr stacks"
    and out: "out = head 15 (sort_key (\<lambda>s. - Combined_Score s) stacks)" by auto
  from assms(2) have "s \<in> set stacks"
    unfolding out head_def by (auto dest: in_set_takeD)
  from stacks_loop_members [OF loop this] show ?thesis .
qed

lemma distinct_teams_cross:
  assumes "distinct (map Team top20)"
  shows "filter (cross_team top20) (player_combos_of top20) = player_combos_of top20"
proof -
  have "cross_team top20 c" if "c \<in> set (player_combos_of top20)" for c
  proof -
    from that have "fst c < snd c" "snd c < length top20"
      by (auto simp: set_player_combos_of)
    then have i: "fst c < length (map Team top20)" and j: "snd c < length (map Team top20)"
      and ne: "fst c \<noteq> snd c" by simp_all
    from nth_eq_iff_index_eq [OF assms i j] ne
    have "map Team top20 ! fst c \<noteq> map Team top20 ! snd c" by blast
    then show ?thesis using \<open>fst c < snd c\<close> \<open>snd c < length top20\<close>
      by (simp add: cross_team_def)
  qed
  then show ?thesis by (simp add: filter_id_conv)
qed

lemma length_player_combos_20:
  assumes "20 \<le> length top30"
  shows "length (player_combos_of (head 20 top30)) = 190"
proof -
  have "length (head 20 top30) = 20" using assms by (simp add: head_def)
  then have "2 * length (player_combos_of (head 20 top30)) = 20 * 19"
    using length_combinations2 [of "[0..<length (head 20 top30)]"]
    by (simp add: player_combos_of_def)
  then show ?thesis by simp
qed

lemma build_parlay_stacks_total:
  assumes valid: "\<And>p. p \<in> set (head 20 top30) \<Longrightarrow> Confidence p \<in> set confidence_labels"
    and cross: "filter (cross_team (head 20 top30)) (player_combos_of (head 20 top30)) \<noteq> []"
  shows "\<exists>stacks. stacks_loop (head 20 top30) (player_combos_of (head 20 top30)) [] = Inr stacks
           \<and> build_parlay_stacks (Some top30)
               = Inr (Some (head 15 (sort_key (\<lambda>s. - Combined_Score s) stacks)))"
proof -
  let ?top20 = "head 20 top30"
  let ?f = "\<lambda>c. make_stack (?top20 ! fst c) (?top20 ! snd c)"
  have "\<exists>y. ?f c = Inr y" if "c \<in> set (filter (cross_team ?top20) (player_combos_of ?top20))" for c
  proof -
    from that have "fst c < length ?top20" "snd c < length ?top20"
      by (auto simp: set_player_combos_of)
    then have "Confidence (?top20 ! fst c) \<in> set confidence_labels"
      "Confidence (?top20 ! snd c) \<in> set confidence_labels"
      using valid by simp_all
    then obtain b1 b2 where "confidence_value (Confidence (?top20 ! fst c)) = Some b1"
      "confidence_value (Confidence (?top20 ! snd c)) = Some b2"
      using confidence_value_None by (metis not_Some_eq)
    then show ?thesis by (simp add: make_stack_Inr)
  qed
  from append_each_total [of _ ?f, OF this] obtain stacks where
    loop: "stacks_loop ?top20 (player_combos_of ?top20) [] = Inr stacks"
    unfolding stacks_loop_append_each by blast
  from stacks_loop_length [OF loop] cross have "stacks \<noteq> []" by auto
  with loop show ?thesis
    by (simp add: build_parlay_stacks_def Let_def sort_stacks_def)
qed





lemma demo_top30_length: "length demo_top30 = 30"
  by (simp add: demo_top30_def mlb_teams_def)

lemma demo_top20_teams: "map Team (head 20 demo_top30) = take 20 mlb_teams"
  by (simp add: demo_top30_def mlb_teams_def head_def demo_pred_def add_Confidence_def
      add_HR_Score_def demo_player_def)

lemma demo_top20_distinct: "distinct (map Team (head 20 demo_top30))"
  unfolding demo_top20_teams by (simp add: mlb_teams_def)

lemma demo_top20_valid:
  "list_all (\<lambda>p. Confidence p \<in> set confidence_labels) (head 20 demo_top30)"
  by (simp add: demo_top30_def mlb_teams_def head_def demo_pred_def add_Confidence_def
      confidence_labels_def)

lemma demo_top30_builds:
  "\<exists>stacks. stacks_loop (head 20 demo_top30) (player_combos_of (head 20 demo_top30)) [] = Inr stacks
      \<and> build_parlay_stacks (Some demo_top30)
           = Inr (Some (head 15 (sort_key (\<lambda>s. - Combined_Score s) stacks)))"
proof (rule build_parlay_stacks_total)
  fix p assume "p \<in> set (head 20 demo_top30)"
  with demo_top20_valid show "Confidence p \<in> set confidence_labels"
    by (simp add: list_all_iff)
next
  have "length (player_combos_of (head 20 demo_top30)) = 190"
    by (rule length_player_combos_20) (simp add: demo_top30_length)
  then show "filter (cross_team (head 20 demo_top30)) (player_combos_of (head 20 demo_top30)) \<noteq> []"
    unfolding distinct_teams_cross [OF demo_top20_distinct] by auto
qed

text \<open>
  The Parlay Builder on two small tables: three players of three teams, the second with
  an unknown label, and the same table without that player.
\<close>

lemma build_parlay_stacks_example:
  "build_parlay_stacks (Some demo_bad_tier) = Inl (KeyError ''C'')"
  "build_parlay_stacks (Some [demo_pred (0, ''NYY''), demo_pred (29, ''CWS'')])
     = Inr (Some [\<lparr>Player1 = ''Player NYY'', Team1 = ''NYY'',
                    Player2 = ''Player CWS'', Team2 = ''CWS'',
                    Combined_Score = 13 * (101 / 10) * (115 / 100),
                    Player1_Confidence = ''A+'', Player2_Confidence = ''B+''\<rparr>])"
  "build_parlay_stacks (Some [demo_pred (0, ''NYY''), demo_pred (1, ''NYY'')])
     = Inl (KeyError ''Combined_Score'')"
  by (simp_all add: build_parlay_stacks_def demo_bad_tier_def head_def player_combos_of_def
      upt_rec Let_def demo_pred_def demo_player_def add_Confidence_def add_HR_Score_def
      make_stack_def dict_get_def confidence_value_def sort_stacks_def)

text \<open>
  Claim C4. No pair the Parlay Builder returns has \<open>Team1\<close> equal to \<open>Team2\<close>. When the
  twenty best players are of twenty different teams, the candidate pairs are
  \<open>190 = 20 choose 2\<close>, the same-team test skips none of them, and the loop, when it
  ends without an exception, has built 190 stacks.
\<close>

theorem C4_cross_team_pairs:
  "(\<forall>out. build_parlay_stacks input_file = Inr (Some out) \<longrightarrow>
      (\<forall>s \<in> set out. Team1 s \<noteq> Team2 s))
   \<and> (\<forall>top30. input_file = Some top30 \<and> 20 \<le> length top30
          \<and> distinct (map Team (head 20 top30)) \<longrightarrow>
        length (player_combos_of (head 20 top30)) = 190
      \<and> filter (cross_team (head 20 top30)) (player_combos_of (head 20 top30))
          = player_combos_of (head 20 top30)
      \<and> (\<forall>stacks. stacks_loop (head 20 top30) (player_combos_of (head 20 top30)) [] = Inr stacks
            \<longrightarrow> length stacks = 190))"
proof (intro conjI allI impI ballI)
  fix out s
  assume b: "build_parlay_stacks input_file = Inr (Some out)" and s: "s \<in> set out"
  from build_parlay_stacks_Some [OF b] obtain top30 where "input_file = Some top30" by blast
  with b have "build_parlay_stacks (Some top30) = Inr (Some out)" by simp
  from emitted_members [OF this s] obtain c where
    "cross_team (head 20 top30) c"
    "make_stack (head 20 top30 ! fst c) (head 20 top30 ! snd c) = Inr s" by blast
  then show "Team1 s \<noteq> Team2 s"
    by (auto simp: make_stack_Inr cross_team_def)
next
  fix top30
  assume "input_file = Some top30 \<and> 20 \<le> length top30 \<and> distinct (map Team (head 20 top30))"
  then show "length (player_combos_of (head 20 top30)) = 190"
    by (simp add: length_player_combos_20)
next
  fix top30
  assume "input_file = Some top30 \<and> 20 \<le> length top30 \<and> distinct (map Team (head 20 top30))"
  then show "filter (cross_team (head 20 top30)) (player_combos_of (head 20 top30))
          = player_combos_of (head 20 top30)"
    by (simp add: distinct_teams_cross)
next
  fix top30 stacks
  assume a: "input_file = Some top30 \<and> 20 \<le> length top30 \<and> distinct (map Team (head 20 top30))"
    and l: "stacks_loop (head 20 top30) (player_combos_of (head 20 top30)) [] = Inr stacks"
  from a show "length stacks = 190"
    by (simp add: stacks_loop_length [OF l] distinct_teams_cross length_player_combos_20)
qed

theorem C4_cross_team_pairs_witness:
  "20 \<le> length demo_top30 \<and> distinct (map Team (head 20 demo_top30))
   \<and> length (player_combos_of (head 20 demo_top30)) = 190
   \<and> (\<exists>stacks out.
         stacks_loop (head 20 demo_top30) (player_combos_of (head 20 demo_top30)) [] = Inr stacks
       \<and> length stacks = 190
       \<and> build_parlay_stacks (Some demo_top30) = Inr (Some out)
       \<and> list_all (\<lambda>s. Team1 s \<noteq> Team2 s) out)"
proof -
  have h: "20 \<le> length demo_top30" by (simp add: demo_top30_length)
  from demo_top30_builds obtain stacks out where
    loop: "stacks_loop (head 20 demo_top30) (player_combos_of (head 20 demo_top30)) [] = Inr stacks"
    and out: "build_parlay_stacks (Some demo_top30) = Inr (Some out)" by blast
  note c4 = C4_cross_team_pairs [of "Some demo_top30"]
  from c4 h demo_top20_distinct
  have n: "length (player_combos_of (head 20 demo_top30)) = 190" by blast
  from c4 h demo_top20_distinct loop have "length stacks = 190" by blast
  moreover from c4 out have "list_all (\<lambda>s. Team1 s \<noteq> Team2 s) out"
    unfolding list_all_iff by blast
  ultimately show ?thesis using h demo_top20_distinct n loop out by blast
qed




section \<open>Properties of the data frames\<close>

subsection \<open>Frames built from records of one shape\<close>

lemma zip_fst_snd: "zip (map fst d) (map snd d) = d"
  by (induction d) auto

lemma DataFrame_columns:
  assumes "\<And>d. d \<in> set ds \<Longrightarrow> map fst d = cols" and "ds \<noteq> []"
  shows "df_columns (DataFrame ds) = cols"
  using assms by (cases ds) (auto simp: DataFrame_def)

lemma DataFrame_lookup:
  assumes "\<And>d. d \<in> set ds \<Longrightarrow> map fst d = cols" and "d \<in> set ds"
  shows "map_of (zip (df_columns (DataFrame ds)) (map snd d)) k = map_of d k"
proof -
  from assms have "ds \<noteq> []" by auto
  from DataFrame_columns [OF assms(1) this] have "df_columns (DataFrame ds) = cols" by simp
  also from assms have "cols = map fst d" by simp
  finally show ?thesis by (simp add: zip_fst_snd)
qed

lemma result_rows_DataFrame:
  assumes "\<And>d. d \<in> set ds \<Longrightarrow> map fst d = cols"
  shows "result_rows (DataFrame ds) label
           = map (map snd) (filter (\<lambda>d. map_of d ''Result'' = Some (Str label)) ds)"
proof -
  have "filter (\<lambda>r. map_of (zip (df_columns (DataFrame ds)) r) ''Result'' = Some (Str label))
          (map (map snd) ds)
        = map (map snd) (filter (\<lambda>d. map_of d ''Result'' = Some (Str label)) ds)"
    unfolding filter_map comp_def
    by (rule arg_cong [where f = "map (map snd)"], rule filter_cong [OF refl])
       (simp add: DataFrame_lookup [OF assms])
  then show ?thesis by (simp add: result_rows_def DataFrame_def)
qed

subsection \<open>Merging\<close>

lemma pd_merge_Inr:
  "pd_merge left right on h indicator = Inr df \<longleftrightarrow>
     on \<in> set (df_columns left) \<and> on \<in> set (df_columns right)
   \<and> (indicator \<longrightarrow> ''_merge'' \<notin> set (df_columns left) \<and> ''_merge'' \<notin> set (df_columns right))
   \<and> df = \<lparr>df_columns = merged_columns left right on indicator,
            df_rows = concat (map (merged_rows left right on h indicator) (df_rows left))\<rparr>"
  by (auto simp: pd_merge_def)

lemma where_eq_Inr:
  "where_eq df k v = Inr df' \<longleftrightarrow>
     k \<in> set (df_columns df)
   \<and> df' = df\<lparr>df_rows := filter (\<lambda>r. map_of (zip (df_columns df) r) k = Some v) (df_rows df)\<rparr>"
  by (auto simp: where_eq_def)

lemma length_iterrows: "length (iterrows df) = len df"
  by (simp add: iterrows_def len_def)

lemma series_has_iterrows:
  assumes "x \<in> set (iterrows df)" and "series_has x k"
  shows "k \<in> set (df_columns df)"
proof -
  from assms(1) obtain r where "x = zip (df_columns df) r" by (auto simp: iterrows_def)
  with assms(2) show ?thesis
    by (auto simp: series_has_def dest: set_zip_leftD)
qed

lemma suffixed_not_merge:
  assumes "c \<noteq> ''_merge''"
  shows "suffixed other on ''_x'' c \<noteq> ''_merge''" and "suffixed other on ''_y'' c \<noteq> ''_merge''"
proof -
  have "c @ ''_x'' \<noteq> ''_merge''" "c @ ''_y'' \<noteq> ''_merge''"
    by (auto dest: arg_cong [where f = last])
  with assms show "suffixed other on ''_x'' c \<noteq> ''_merge''"
    and "suffixed other on ''_y'' c \<noteq> ''_merge''"
    by (simp_all add: suffixed_def)
qed

lemma merge_not_renamed:
  assumes "''_merge'' \<notin> set cols"
  shows "''_merge'' \<notin> set (map (suffixed other on ''_x'') cols)"
    and "''_merge'' \<notin> set (map (suffixed other on ''_y'') (filter P cols))"
proof -
  have ne: "c \<noteq> ''_merge''" if "c \<in> set cols" for c
    using that assms by blast
  show "''_merge'' \<notin> set (map (suffixed other on ''_x'') cols)"
  proof
    assume "''_merge'' \<in> set (map (suffixed other on ''_x'') cols)"
    then obtain c where "c \<in> set cols" "suffixed other on ''_x'' c = ''_merge''"
      by force
    with suffixed_not_merge(1) [OF ne] show False by blast
  qed
  show "''_merge'' \<notin> set (map (suffixed other on ''_y'') (filter P cols))"
  proof
    assume "''_merge'' \<in> set (map (suffixed other on ''_y'') (filter P cols))"
    then obtain c where "c \<in> set cols" "suffixed other on ''_y'' c = ''_merge''"
      by force
    with suffixed_not_merge(2) [OF ne] show False by blast
  qed
qed

lemma Team_not_merged:
  assumes "''Team'' \<in> set (df_columns left)" and "''Team'' \<in> set (df_columns right)"
  shows "''Team'' \<notin> set (merged_columns left right ''Player'' True)"
proof -
  have x: "suffixed (df_columns right) ''Player'' ''_x'' c \<noteq> ''Team''" for c
    using assms(2) by (auto simp: suffixed_def dest: arg_cong [where f = last])
  have y: "suffixed (df_columns left) ''Player'' ''_y'' c \<noteq> ''Team''" for c
    using assms(1) by (auto simp: suffixed_def dest: arg_cong [where f = last])
  show ?thesis
  proof
    assume "''Team'' \<in> set (merged_columns left right ''Player'' True)"
    then consider c where "suffixed (df_columns right) ''Player'' ''_x'' c = ''Team''"
      | c where "suffixed (df_columns left) ''Player'' ''_y'' c = ''Team''"
      unfolding merged_columns_def by force
    then show False using x y by cases blast+
  qed
qed

lemma length_without_key:
  "length r = length cols \<Longrightarrow> length (without_key cols on r) = length (filter (\<lambda>c. c \<noteq> on) cols)"
proof (induction cols arbitrary: r)
  case Nil
  then show ?case by (simp add: without_key_def)
next
  case (Cons c cols)
  then obtain v vs where r: "r = v # vs" and "length vs = length cols" by (cases r) auto
  with Cons.IH [of vs] show ?case by (simp add: without_key_def)
qed

lemma map_of_zip_last:
  assumes "length a = length ca" and "k \<notin> set ca"
  shows "map_of (zip (ca @ [k]) (a @ [v])) k = Some v"
  using assms by (simp add: map_of_zip_is_None [THEN iffD2] map_add_def split: option.splits)

subsection \<open>Counting matches\<close>

lemma count_partition:
  "(\<And>x. x \<in> set xs \<Longrightarrow> length (f x) \<le> 1) \<Longrightarrow>
     length (concat (map f xs)) + length (filter (\<lambda>x. f x = []) xs) = length xs"
proof (induction xs)
  case Nil
  show ?case by simp
next
  case (Cons x xs)
  then have "length (f x) \<le> 1" by simp
  then have "length (f x) + (if f x = [] then 1 else 0) = 1"
    by (cases "f x") auto
  with Cons show ?case by auto
qed

lemma length_concat_filter_swap:
  "length (concat (map (\<lambda>l. filter (\<lambda>r. g r = h l) rs) ls))
     = length (concat (map (\<lambda>r. filter (\<lambda>l. h l = g r) ls) rs))"
proof (induction ls)
  case Nil
  show ?case by (induction rs) auto
next
  case (Cons l ls)
  have "length (concat (map (\<lambda>r. filter (\<lambda>l'. h l' = g r) (l # ls)) rs))
          = length (filter (\<lambda>r. g r = h l) rs)
            + length (concat (map (\<lambda>r. filter (\<lambda>l'. h l' = g r) ls) rs))"
    by (induction rs) auto
  with Cons show ?case by simp
qed

lemma distinct_filter_le_1:
  "distinct (map g rs) \<Longrightarrow> length (filter (\<lambda>r. g r = k) rs) \<le> 1"
proof (induction rs)
  case Nil
  show ?case by simp
next
  case (Cons r rs)
  show ?case
  proof (cases "g r = k")
    case True
    with Cons.prems have "k \<notin> g ` set rs" by simp
    then have "filter (\<lambda>r. g r = k) rs = []"
      unfolding filter_empty_conv by blast
    with True show ?thesis by simp
  next
    case False
    with Cons show ?thesis by simp
  qed
qed

lemma matches_le_1:
  assumes "distinct (map (key_of (df_columns right) on) (df_rows right))"
  shows "length (matches left right on l) \<le> 1"
  unfolding matches_def by (rule distinct_filter_le_1 [OF assms])

lemma hits_and_unmatched_left:
  assumes "distinct (map (key_of (df_columns right) on) (df_rows right))"
  shows "length (concat (map (matches left right on) (df_rows left)))
           + length (filter (\<lambda>l. matches left right on l = []) (df_rows left))
         = length (df_rows left)"
  by (rule count_partition) (rule matches_le_1 [OF assms])

lemma matches_swap:
  "length (concat (map (matches left right on) (df_rows left)))
     = length (concat (map (matches right left on) (df_rows right)))"
  unfolding matches_def by (rule length_concat_filter_swap)

subsection \<open>The rows of the three merges\<close>

lemma merged_rows_inner_length:
  "length (merged_rows left right on Inner_join indicator l) = length (matches left right on l)"
  by (simp add: merged_rows_def Let_def)

lemma len_hits:
  assumes "pd_merge left right on Inner_join indicator = Inr hits"
  shows "len hits = length (concat (map (matches left right on) (df_rows left)))"
proof -
  from assms have "df_rows hits
      = concat (map (merged_rows left right on Inner_join indicator) (df_rows left))"
    by (simp add: pd_merge_Inr)
  then show ?thesis
    by (simp add: len_def length_concat comp_def merged_rows_inner_length)
qed

lemma merge_column_of_merged_row:
  assumes l: "length l = length (df_columns left)"
    and r: "list_all (\<lambda>r. length r = length (df_columns right)) (df_rows right)"
    and m: "''_merge'' \<notin> set (df_columns left)" "''_merge'' \<notin> set (df_columns right)"
    and row: "row \<in> set (merged_rows left right on Left_join True l)"
  shows "map_of (zip (merged_columns left right on True) row) ''_merge''
           = Some (Str (if matches left right on l = [] then ''left_only'' else ''both''))"
proof -
  let ?ca = "map (suffixed (df_columns right) on ''_x'') (df_columns left)
       @ map (suffixed (df_columns left) on ''_y'') (filter (\<lambda>c. c \<noteq> on) (df_columns right))"
  have cols: "merged_columns left right on True = ?ca @ [''_merge'']"
    by (simp add: merged_columns_def)
  have notin: "''_merge'' \<notin> set ?ca"
    using merge_not_renamed [OF m(1)] merge_not_renamed [OF m(2)]
    unfolding set_append by blast
  show ?thesis
  proof (cases "matches left right on l = []")
    case True
    with row have eq: "row = (l @ map (\<lambda>c. NaN) (filter (\<lambda>c. c \<noteq> on) (df_columns right)))
                           @ [Str ''left_only'']"
      by (simp add: merged_rows_def)
    have len: "length (l @ map (\<lambda>c. NaN) (filter (\<lambda>c. c \<noteq> on) (df_columns right)))
                     = length ?ca"
      using l by simp
    show ?thesis
      unfolding cols eq if_P [OF True] by (rule map_of_zip_last [OF len notin])
  next
    case False
    with row obtain r' where r': "r' \<in> set (matches left right on l)"
      and eq: "row = (l @ without_key (df_columns right) on r') @ [Str ''both'']"
      by (auto simp: merged_rows_def Let_def)
    from r' have "r' \<in> set (df_rows right)" by (simp add: matches_def)
    with r have "length r' = length (df_columns right)" by (simp add: list_all_iff)
    then have len: "length (l @ without_key (df_columns right) on r') = length ?ca"
      using l by (simp add: length_without_key)
    show ?thesis
      unfolding cols eq if_not_P [OF False] by (rule map_of_zip_last [OF len notin])
  qed
qed

lemma left_only_rows:
  assumes l: "length l = length (df_columns left)"
    and r: "list_all (\<lambda>r. length r = length (df_columns right)) (df_rows right)"
    and m: "''_merge'' \<notin> set (df_columns left)" "''_merge'' \<notin> set (df_columns right)"
  shows "filter (\<lambda>row. map_of (zip (merged_columns left right on True) row) ''_merge''
                         = Some (Str ''left_only''))
           (merged_rows left right on Left_join True l)
         = (if matches left right on l = []
            then merged_rows left right on Left_join True l else [])"
proof (cases "matches left right on l = []")
  case True
  then show ?thesis
    using merge_column_of_merged_row [OF l r m, of _ on]
    by (simp add: filter_id_conv)
next
  case False
  then show ?thesis
    using merge_column_of_merged_row [OF l r m, of _ on]
    by (simp add: filter_empty_conv)
qed

lemma left_only_frame:
  assumes wl: "list_all (\<lambda>r. length r = length (df_columns left)) (df_rows left)"
    and wr: "list_all (\<lambda>r. length r = length (df_columns right)) (df_rows right)"
    and merged: "pd_merge left right on Left_join True = Inr merged"
    and sel: "where_eq merged ''_merge'' (Str ''left_only'') = Inr only"
  shows "df_columns only = merged_columns left right on True"
    and "df_rows only = concat (map (merged_rows left right on Left_join True)
                                (filter (\<lambda>l. matches left right on l = []) (df_rows left)))"
proof -
  from merged have m: "''_merge'' \<notin> set (df_columns left)" "''_merge'' \<notin> set (df_columns right)"
    and mdf: "merged = \<lparr>df_columns = merged_columns left right on True,
            df_rows = concat (map (merged_rows left right on Left_join True) (df_rows left))\<rparr>"
    by (simp_all add: pd_merge_Inr)
  from sel show "df_columns only = merged_columns left right on True"
    by (simp add: where_eq_Inr mdf)
  have "filter (\<lambda>row. map_of (zip (merged_columns left right on True) row) ''_merge''
                         = Some (Str ''left_only''))
          (concat (map (merged_rows left right on Left_join True) ls))
        = concat (map (merged_rows left right on Left_join True)
                    (filter (\<lambda>l. matches left right on l = []) ls))"
    if "list_all (\<lambda>r. length r = length (df_columns left)) ls" for ls
    using that
  proof (induction ls)
    case Nil
    show ?case by simp
  next
    case (Cons l ls)
    then have "length l = length (df_columns left)" by simp
    from left_only_rows [OF this wr m, of on] Cons show ?case by simp
  qed
  from this [OF wl] sel show "df_rows only = concat (map (merged_rows left right on Left_join True)
                                (filter (\<lambda>l. matches left right on l = []) (df_rows left)))"
    by (simp add: where_eq_Inr mdf)
qed

lemma merged_rows_unmatched:
  "matches left right on l = [] \<Longrightarrow>
     merged_rows left right on Left_join True l
       = [l @ map (\<lambda>c. NaN) (filter (\<lambda>c. c \<noteq> on) (df_columns right)) @ [Str ''left_only'']]"
  by (simp add: merged_rows_def)

lemma len_left_only:
  assumes wl: "list_all (\<lambda>r. length r = length (df_columns left)) (df_rows left)"
    and wr: "list_all (\<lambda>r. length r = length (df_columns right)) (df_rows right)"
    and merged: "pd_merge left right on Left_join True = Inr merged"
    and sel: "where_eq merged ''_merge'' (Str ''left_only'') = Inr only"
  shows "len only = length (filter (\<lambda>l. matches left right on l = []) (df_rows left))"
proof -
  have "length (concat (map (merged_rows left right on Left_join True) ls)) = length ls"
    if "\<And>l. l \<in> set ls \<Longrightarrow> matches left right on l = []" for ls
    using that by (induction ls) (simp_all add: merged_rows_unmatched)
  from this [of "filter (\<lambda>l. matches left right on l = []) (df_rows left)"]
  show ?thesis
    unfolding len_def left_only_frame(2) [OF assms] by simp
qed

section \<open>Properties of the Outcome Tracker\<close>

subsection \<open>The three kinds of record\<close>

lemma hit_record_shape:
  assumes "hit_record yesterday hit = Inr d"
  shows "map fst d = tracking_columns \<and> map_of d ''Result'' = Some (Str ''Hit'')"
  using assms by (auto simp: hit_record_def bind_error_Inr_iff tracking_columns_def)

lemma miss_record_shape:
  assumes "miss_record yesterday miss = Inr d"
  shows "map fst d = tracking_columns \<and> map_of d ''Result'' = Some (Str ''Miss'')"
  using assms by (auto simp: miss_record_def bind_error_Inr_iff tracking_columns_def)

lemma surprise_record_shape:
  assumes "surprise_record yesterday surprise = Inr d"
  shows "map fst d = tracking_columns \<and> map_of d ''Result'' = Some (Str ''Surprise'')"
  using assms
  by (auto simp: surprise_record_def Let_def bind_error_Inr_iff tracking_columns_def)

lemma miss_record_team:
  assumes "miss_record yesterday miss = Inr d" and "\<not> series_has miss ''Team''"
  shows "map_of d ''Team'' = Some (Str ''Unknown'')"
  using assms by (auto simp: miss_record_def bind_error_Inr_iff)

subsection \<open>What a run that returns a table is made of\<close>

lemma reconcile_Some:
  assumes "reconcile yesterday cumulative out predictions actual_hr_data = Inr res"
    and "returned res = Some tracking_df"
  shows "\<exists>actual hits merged1 misses merged2 surprises h m s.
           actual_hr_data = Some actual \<and> len actual \<noteq> 0
         \<and> pd_merge predictions actual ''Player'' Inner_join False = Inr hits
         \<and> pd_merge predictions actual ''Player'' Left_join True = Inr merged1
         \<and> where_eq merged1 ''_merge'' (Str ''left_only'') = Inr misses
         \<and> pd_merge actual predictions ''Player'' Left_join True = Inr merged2
         \<and> where_eq merged2 ''_merge'' (Str ''left_only'') = Inr surprises
         \<and> list_all2 (\<lambda>x d. hit_record yesterday x = Inr d) (iterrows hits) h
         \<and> list_all2 (\<lambda>x d. miss_record yesterday x = Inr d) (iterrows misses) m
         \<and> list_all2 (\<lambda>x d. surprise_record yesterday x = Inr d) (iterrows surprises) s
         \<and> tracking_df = DataFrame (h @ m @ s)"
proof (cases actual_hr_data)
  case None
  with assms show ?thesis by (auto simp: reconcile_def)
next
  case (Some actual)
  show ?thesis
  proof (cases "len actual = 0")
    case True
    with Some assms show ?thesis by (auto simp: reconcile_def)
  next
    case False
    from assms(1) Some False obtain hits results1 merged1 misses results2 merged2 surprises
        tracking_results hit_rate surprise_rate where
      a: "pd_merge predictions actual ''Player'' Inner_join False = Inr hits"
      and b: "append_each (hit_record yesterday) (iterrows hits) [] = Inr results1"
      and c: "pd_merge predictions actual ''Player'' Left_join True = Inr merged1"
      and d: "where_eq merged1 ''_merge'' (Str ''left_only'') = Inr misses"
      and e: "append_each (miss_record yesterday) (iterrows misses) results1 = Inr results2"
      and f: "pd_merge actual predictions ''Player'' Left_join True = Inr merged2"
      and g: "where_eq merged2 ''_merge'' (Str ''left_only'') = Inr surprises"
      and h: "append_each (surprise_record yesterday) (iterrows surprises) results2
                = Inr tracking_results"
      and r: "returned res = Some (DataFrame tracking_results)"
      by (auto simp: reconcile_def Let_def bind_error_Inr_iff)
    from b obtain hs where hs: "results1 = hs"
      "list_all2 (\<lambda>x d. hit_record yesterday x = Inr d) (iterrows hits) hs"
      by (auto simp: append_each_Inr)
    from e obtain ms where ms: "results2 = results1 @ ms"
      "list_all2 (\<lambda>x d. miss_record yesterday x = Inr d) (iterrows misses) ms"
      by (auto simp: append_each_Inr)
    from h obtain ss where ss: "tracking_results = results2 @ ss"
      "list_all2 (\<lambda>x d. surprise_record yesterday x = Inr d) (iterrows surprises) ss"
      by (auto simp: append_each_Inr)
    from r assms(2) have "tracking_df = DataFrame (hs @ ms @ ss)"
      by (simp add: hs ms ss)
    with Some False a c d f g hs ms ss show ?thesis by blast
  qed
qed

lemma track_home_runs_reconcile:
  "track_home_runs yesterday files actual_hr_data = Inr res \<Longrightarrow> returned res = Some tracking_df \<Longrightarrow>
     \<exists>out predictions. predictions_of files = Some predictions
        \<and> reconcile yesterday (cumulative_tracking files) out predictions actual_hr_data = Inr res"
  by (auto simp: track_home_runs_def predictions_of_def Let_def split: option.splits)

lemma records_shape:
  assumes "list_all2 (\<lambda>x d. hit_record yesterday x = Inr d) xs h"
    and "list_all2 (\<lambda>x d. miss_record yesterday x = Inr d) ys m"
    and "list_all2 (\<lambda>x d. surprise_record yesterday x = Inr d) zs s"
  shows "\<And>d. d \<in> set (h @ m @ s) \<Longrightarrow> map fst d = tracking_columns"
    and "filter (\<lambda>d. map_of d ''Result'' = Some (Str ''Hit'')) (h @ m @ s) = h"
    and "filter (\<lambda>d. map_of d ''Result'' = Some (Str ''Miss'')) (h @ m @ s) = m"
    and "filter (\<lambda>d. map_of d ''Result'' = Some (Str ''Surprise'')) (h @ m @ s) = s"
proof -
  have hh: "map fst d = tracking_columns \<and> map_of d ''Result'' = Some (Str ''Hit'')"
    if "d \<in> set h" for d
    using list_all2_member2 [OF assms(1) that] hit_record_shape by blast
  have mm: "map fst d = tracking_columns \<and> map_of d ''Result'' = Some (Str ''Miss'')"
    if "d \<in> set m" for d
    using list_all2_member2 [OF assms(2) that] miss_record_shape by blast
  have ss: "map fst d = tracking_columns \<and> map_of d ''Result'' = Some (Str ''Surprise'')"
    if "d \<in> set s" for d
    using list_all2_member2 [OF assms(3) that] surprise_record_shape by blast
  show "\<And>d. d \<in> set (h @ m @ s) \<Longrightarrow> map fst d = tracking_columns"
    using hh mm ss by auto
  show "filter (\<lambda>d. map_of d ''Result'' = Some (Str ''Hit'')) (h @ m @ s) = h"
    using hh mm ss by (simp add: filter_id_conv filter_empty_conv)
  show "filter (\<lambda>d. map_of d ''Result'' = Some (Str ''Miss'')) (h @ m @ s) = m"
    using hh mm ss by (simp add: filter_id_conv filter_empty_conv)
  show "filter (\<lambda>d. map_of d ''Result'' = Some (Str ''Surprise'')) (h @ m @ s) = s"
    using hh mm ss by (simp add: filter_id_conv filter_empty_conv)
qed

lemma tracking_result_rows:
  assumes "list_all2 (\<lambda>x d. hit_record yesterday x = Inr d) xs h"
    and "list_all2 (\<lambda>x d. miss_record yesterday x = Inr d) ys m"
    and "list_all2 (\<lambda>x d. surprise_record yesterday x = Inr d) zs s"
  shows "result_rows (DataFrame (h @ m @ s)) ''Hit'' = map (map snd) h"
    and "result_rows (DataFrame (h @ m @ s)) ''Miss'' = map (map snd) m"
    and "result_rows (DataFrame (h @ m @ s)) ''Surprise'' = map (map snd) s"
proof -
  note shape = records_shape [OF assms]
  have rows: "result_rows (DataFrame (h @ m @ s)) label
           = map (map snd) (filter (\<lambda>d. map_of d ''Result'' = Some (Str label)) (h @ m @ s))"
    for label
    by (rule result_rows_DataFrame) (rule shape(1))
  show "result_rows (DataFrame (h @ m @ s)) ''Hit'' = map (map snd) h"
    by (simp only: rows shape(2))
  show "result_rows (DataFrame (h @ m @ s)) ''Miss'' = map (map snd) m"
    by (simp only: rows shape(3))
  show "result_rows (DataFrame (h @ m @ s)) ''Surprise'' = map (map snd) s"
    by (simp only: rows shape(4))
qed

lemma reconcile_counts:
  assumes rec: "reconcile yesterday cumulative out predictions (Some actual) = Inr res"
    and ret: "returned res = Some tracking_df"
    and wp: "wf_dataframe predictions" and wa: "wf_dataframe actual"
  shows "length (result_rows tracking_df ''Hit'')
           = length (concat (map (matches predictions actual ''Player'') (df_rows predictions)))"
    and "length (result_rows tracking_df ''Miss'')
           = length (filter (\<lambda>l. matches predictions actual ''Player'' l = []) (df_rows predictions))"
    and "length (result_rows tracking_df ''Surprise'')
           = length (filter (\<lambda>l. matches actual predictions ''Player'' l = []) (df_rows actual))"
proof -
  from reconcile_Some [OF rec ret] obtain hits merged1 misses merged2 surprises h m s where
    a: "pd_merge predictions actual ''Player'' Inner_join False = Inr hits"
    and c: "pd_merge predictions actual ''Player'' Left_join True = Inr merged1"
    and d: "where_eq merged1 ''_merge'' (Str ''left_only'') = Inr misses"
    and f: "pd_merge actual predictions ''Player'' Left_join True = Inr merged2"
    and g: "where_eq merged2 ''_merge'' (Str ''left_only'') = Inr surprises"
    and h: "list_all2 (\<lambda>x d. hit_record yesterday x = Inr d) (iterrows hits) h"
    and m: "list_all2 (\<lambda>x d. miss_record yesterday x = Inr d) (iterrows misses) m"
    and s: "list_all2 (\<lambda>x d. surprise_record yesterday x = Inr d) (iterrows surprises) s"
    and df: "tracking_df = DataFrame (h @ m @ s)"
    by auto
  note shape = records_shape [OF h m s]
  from wp have lp: "list_all (\<lambda>r. length r = length (df_columns predictions)) (df_rows predictions)"
    by (simp add: wf_dataframe_def)
  from wa have la: "list_all (\<lambda>r. length r = length (df_columns actual)) (df_rows actual)"
    by (simp add: wf_dataframe_def)
  have "length (result_rows tracking_df ''Hit'') = length h"
    unfolding df tracking_result_rows [OF h m s] by simp
  also have "\<dots> = len hits"
    using list_all2_lengthD [OF h] by (simp add: length_iterrows)
  finally show "length (result_rows tracking_df ''Hit'')
           = length (concat (map (matches predictions actual ''Player'') (df_rows predictions)))"
    by (simp add: len_hits [OF a])
  have "length (result_rows tracking_df ''Miss'') = length m"
    unfolding df tracking_result_rows [OF h m s] by simp
  also have "\<dots> = len misses"
    using list_all2_lengthD [OF m] by (simp add: length_iterrows)
  finally show "length (result_rows tracking_df ''Miss'')
           = length (filter (\<lambda>l. matches predictions actual ''Player'' l = []) (df_rows predictions))"
    by (simp add: len_left_only [OF lp la c d])
  have "length (result_rows tracking_df ''Surprise'') = length s"
    unfolding df tracking_result_rows [OF h m s] by simp
  also have "\<dots> = len surprises"
    using list_all2_lengthD [OF s] by (simp add: length_iterrows)
  finally show "length (result_rows tracking_df ''Surprise'')
           = length (filter (\<lambda>l. matches actual predictions ''Player'' l = []) (df_rows actual))"
    by (simp add: len_left_only [OF la lp f g])
qed

lemma reconcile_printed:
  "reconcile yesterday cumulative out predictions actual_hr_data
     = map_sum id (\<lambda>res. res\<lparr>printed := out @ printed res\<rparr>)
         (reconcile yesterday cumulative [] predictions actual_hr_data)"
  by (simp add: reconcile_def Let_def bind_error_def split: sum.splits option.splits)

lemma outcome_of_reconcile:
  "outcome_of (reconcile yesterday cumulative out predictions actual_hr_data)
     = outcome_of (reconcile yesterday cumulative [] predictions actual_hr_data)"
  by (subst reconcile_printed)
     (cases "reconcile yesterday cumulative [] predictions actual_hr_data", simp_all add: outcome_of_def)

lemma printed_reconcile:
  assumes "reconcile yesterday cumulative out predictions actual_hr_data = Inr res"
  shows "set out \<subseteq> set (printed res)"
  using assms
  by (subst (asm) reconcile_printed)
     (cases "reconcile yesterday cumulative [] predictions actual_hr_data", auto)

subsection \<open>Sample runs\<close>

lemmas tracker_eval =
  track_home_runs_def reconcile_def pd_merge_def merged_columns_def merged_rows_def matches_def
  key_of_def without_key_def suffixed_def where_eq_def iterrows_def hit_record_def
  miss_record_def surprise_record_def series_get_def series_has_def dict_get_def gt_one_def
  DataFrame_def rate_def py_truediv_def len_def Let_def

lemma track_demo:
  "map_sum id returned (track_home_runs ''2024-05-01'' demo_files (Some demo_outcomes))
     = Inr (Some demo_tracking)"
  by (simp add: tracker_eval demo_files_def demo_predictions_def demo_outcomes_def
      demo_tracking_def)

lemma track_two:
  "map_sum id returned
     (track_home_runs ''2024-05-01''
        \<lparr>prediction_file_dated = Some demo_one_prediction, prediction_file_latest = None,
         cumulative_tracking = None\<rparr> (Some demo_two_outcomes))
     = Inr (Some demo_two_hits)"
  by (simp add: tracker_eval demo_one_prediction_def demo_two_outcomes_def demo_two_hits_def)

lemma returned_SomeD:
  "map_sum id returned run = Inr (Some df) \<Longrightarrow> \<exists>res. run = Inr res \<and> returned res = Some df"
  by (cases run) auto

lemma demo_frames_wf:
  "wf_dataframe demo_predictions" "wf_dataframe demo_outcomes"
  "wf_dataframe demo_one_prediction" "wf_dataframe demo_two_outcomes"
  by (simp_all add: wf_dataframe_def demo_predictions_def demo_outcomes_def
      demo_one_prediction_def demo_two_outcomes_def)

lemma demo_keys_distinct:
  "distinct (map (key_of (df_columns demo_predictions) ''Player'') (df_rows demo_predictions))"
  "distinct (map (key_of (df_columns demo_outcomes) ''Player'') (df_rows demo_outcomes))"
  by (simp_all add: key_of_def demo_predictions_def demo_outcomes_def)

lemma demo_tracking_rows:
  "length (result_rows demo_tracking ''Hit'') = 1"
  "length (result_rows demo_tracking ''Miss'') = 1"
  "length (result_rows demo_tracking ''Surprise'') = 1"
  "result_rows demo_tracking ''Miss''
     = [[Str ''2024-05-01'', Str ''B'', Str ''Unknown'', Num 0.5, Str ''B+'', Num 0,
         Str ''Miss'', Bool False]]"
  by (simp_all add: result_rows_def demo_tracking_def)

text \<open>
  When the outcome table has no \<open>Team\<close> column the merge renames nothing, and a miss
  keeps the team of its prediction.
\<close>

lemma miss_team_kept_example:
  "map_sum id returned
     (track_home_runs ''2024-05-01'' demo_files (Some demo_outcomes_no_team))
   = Inr (Some
       \<lparr>df_columns = tracking_columns,
        df_rows = [[Str ''2024-05-01'', Str ''A'', Str ''NYY'', Num 0.9, Str ''A+'', Num 0,
                    Str ''Miss'', Bool False],
                   [Str ''2024-05-01'', Str ''B'', Str ''BOS'', Num 0.5, Str ''B+'', Num 0,
                    Str ''Miss'', Bool False],
                   [Str ''2024-05-01'', Str ''C'', NaN, Num 0, Str ''None'', Num 2,
                    Str ''Surprise'', Bool True]]\<rparr>)"
  by (simp add: tracker_eval demo_files_def demo_predictions_def demo_outcomes_no_team_def
      tracking_columns_def)

subsection \<open>The claims\<close>

text \<open>
  Claim C6, as the code has it. The claim is that for every prediction table \<open>P\<close> and
  outcome table \<open>O\<close> the partition satisfies \<open>|Hit| + |Miss| = |P|\<close> and
  \<open>|Hit| + |Surprise| = |O|\<close>. The merge is on the player name alone and pairs every
  prediction with every outcome of that name, so the first equation holds when no name
  occurs twice in \<open>O\<close> and the second when no name occurs twice in \<open>P\<close>; this is
  proved for every run that returns a table, on frames whose rows have one cell per
  column.
\<close>

theorem C6_partition_sizes:
  assumes run: "track_home_runs yesterday files (Some actual) = Inr res"
    and ret: "returned res = Some tracking_df"
    and pred: "predictions_of files = Some predictions"
    and wp: "wf_dataframe predictions" and wa: "wf_dataframe actual"
  shows "(distinct (map (key_of (df_columns actual) ''Player'') (df_rows actual)) \<longrightarrow>
            length (result_rows tracking_df ''Hit'') + length (result_rows tracking_df ''Miss'')
              = len predictions)
       \<and> (distinct (map (key_of (df_columns predictions) ''Player'') (df_rows predictions)) \<longrightarrow>
            length (result_rows tracking_df ''Hit'') + length (result_rows tracking_df ''Surprise'')
              = len actual)"
proof -
  from track_home_runs_reconcile [OF run ret] pred obtain out where
    rec: "reconcile yesterday (cumulative_tracking files) out predictions (Some actual) = Inr res"
    by auto
  note n = reconcile_counts [OF rec ret wp wa]
  show ?thesis
  proof (intro conjI impI)
    assume "distinct (map (key_of (df_columns actual) ''Player'') (df_rows actual))"
    from hits_and_unmatched_left [OF this, of predictions]
    show "length (result_rows tracking_df ''Hit'') + length (result_rows tracking_df ''Miss'')
              = len predictions"
      by (simp add: n len_def)
  next
    assume "distinct (map (key_of (df_columns predictions) ''Player'') (df_rows predictions))"
    from hits_and_unmatched_left [OF this, of actual]
    show "length (result_rows tracking_df ''Hit'') + length (result_rows tracking_df ''Surprise'')
              = len actual"
      by (simp add: n len_def matches_swap [of predictions actual])
  qed
qed

theorem C6_partition_sizes_witness:
  "wf_dataframe demo_predictions \<and> wf_dataframe demo_outcomes
   \<and> distinct (map (key_of (df_columns demo_outcomes) ''Player'') (df_rows demo_outcomes))
   \<and> distinct (map (key_of (df_columns demo_predictions) ''Player'') (df_rows demo_predictions))
   \<and> (\<exists>res. track_home_runs ''2024-05-01'' demo_files (Some demo_outcomes) = Inr res
         \<and> returned res = Some demo_tracking
         \<and> length (result_rows demo_tracking ''Hit'') + length (result_rows demo_tracking ''Miss'')
             = len demo_predictions
         \<and> length (result_rows demo_tracking ''Hit'')
             + length (result_rows demo_tracking ''Surprise'')
             = len demo_outcomes)"
proof -
  from returned_SomeD [OF track_demo] obtain res where
    run: "track_home_runs ''2024-05-01'' demo_files (Some demo_outcomes) = Inr res"
    and ret: "returned res = Some demo_tracking" by blast
  have pred: "predictions_of demo_files = Some demo_predictions"
    by (simp add: predictions_of_def demo_files_def)
  note c6 = C6_partition_sizes [OF run ret pred demo_frames_wf(1,2)]
  from c6 [THEN conjunct1, THEN mp, OF demo_keys_distinct(2)]
    c6 [THEN conjunct2, THEN mp, OF demo_keys_distinct(1)]
    run ret demo_frames_wf(1,2) demo_keys_distinct
  show ?thesis by (intro conjI exI [of _ res])
qed

text \<open>
  The claim fails without that condition: one prediction for a name that two outcome
  rows carry gives two hits and no miss.
\<close>

theorem C6_counterexample:
  "wf_dataframe demo_one_prediction \<and> wf_dataframe demo_two_outcomes
   \<and> map_sum id returned
       (track_home_runs ''2024-05-01''
          \<lparr>prediction_file_dated = Some demo_one_prediction, prediction_file_latest = None,
           cumulative_tracking = None\<rparr> (Some demo_two_outcomes))
       = Inr (Some demo_two_hits)
   \<and> length (result_rows demo_two_hits ''Hit'') + length (result_rows demo_two_hits ''Miss'')
       \<noteq> len demo_one_prediction"
proof -
  have "length (result_rows demo_two_hits ''Hit'') + length (result_rows demo_two_hits ''Miss'') = 2"
    by (simp add: result_rows_def demo_two_hits_def)
  moreover have "len demo_one_prediction = 1"
    by (simp add: len_def demo_one_prediction_def)
  ultimately show ?thesis
    using track_two demo_frames_wf by simp
qed

text \<open>
  Claim C7, as the code has it. The claim is that the Tracker returns nothing whenever
  the prediction file of the target date is missing. The code first falls back to the
  latest prediction file: with it, the run prints a warning and then returns and writes
  what a run on a dated file of the same content does; only when the latest file is
  missing too does it print an error, return \<open>None\<close> and write no tracking file.
\<close>

theorem C7_fallback_to_latest:
  assumes "prediction_file_dated files = None"
  shows "(prediction_file_latest files = None \<longrightarrow>
            track_home_runs yesterday files actual_hr_data =
              Inr \<lparr>printed =
                     [Print ''>> Tracking Today's Home Runs...'',
                      Print (''WARNING: Prediction file data/output/apex_top30_'' @ yesterday
                               @ ''.csv not found. Trying latest predictions...''),
                      Print ''ERROR: No prediction file found. Cannot track home runs.''],
                   returned = None, tracking_file = None,
                   cumulative_file = cumulative_tracking files\<rparr>)
       \<and> (\<forall>predictions. prediction_file_latest files = Some predictions \<longrightarrow>
            outcome_of (track_home_runs yesterday files actual_hr_data)
              = outcome_of (track_home_runs yesterday
                              (files\<lparr>prediction_file_dated := Some predictions\<rparr>) actual_hr_data)
          \<and> (\<forall>res. track_home_runs yesterday files actual_hr_data = Inr res \<longrightarrow>
                Print (''WARNING: Prediction file data/output/apex_top30_'' @ yesterday
                         @ ''.csv not found. Trying latest predictions...'') \<in> set (printed res)))"
proof (intro conjI allI impI)
  assume "prediction_file_latest files = None"
  with assms show "track_home_runs yesterday files actual_hr_data =
              Inr \<lparr>printed =
                     [Print ''>> Tracking Today's Home Runs...'',
                      Print (''WARNING: Prediction file data/output/apex_top30_'' @ yesterday
                               @ ''.csv not found. Trying latest predictions...''),
                      Print ''ERROR: No prediction file found. Cannot track home runs.''],
                   returned = None, tracking_file = None,
                   cumulative_file = cumulative_tracking files\<rparr>"
    by (simp add: track_home_runs_def)
next
  fix predictions
  assume latest: "prediction_file_latest files = Some predictions"
  let ?warning = "Print (''WARNING: Prediction file data/output/apex_top30_'' @ yesterday
                         @ ''.csv not found. Trying latest predictions...'')"
  from assms latest have run: "track_home_runs yesterday files actual_hr_data
      = reconcile yesterday (cumulative_tracking files)
          [Print ''>> Tracking Today's Home Runs...'', ?warning] predictions actual_hr_data"
    by (simp add: track_home_runs_def)
  have dated: "track_home_runs yesterday (files\<lparr>prediction_file_dated := Some predictions\<rparr>)
        actual_hr_data
      = reconcile yesterday (cumulative_tracking files)
          [Print ''>> Tracking Today's Home Runs...''] predictions actual_hr_data"
    by (simp add: track_home_runs_def)
  show "outcome_of (track_home_runs yesterday files actual_hr_data)
              = outcome_of (track_home_runs yesterday
                              (files\<lparr>prediction_file_dated := Some predictions\<rparr>) actual_hr_data)"
    unfolding run dated
    by (subst outcome_of_reconcile, subst (2) outcome_of_reconcile) (rule refl)
  fix res
  assume "track_home_runs yesterday files actual_hr_data = Inr res"
  with run have "reconcile yesterday (cumulative_tracking files)
          [Print ''>> Tracking Today's Home Runs...'', ?warning] predictions actual_hr_data = Inr res"
    by simp
  from printed_reconcile [OF this] show "?warning \<in> set (printed res)" by simp
qed

theorem C7_fallback_to_latest_witness:
  "prediction_file_dated demo_files_latest_only = None
   \<and> prediction_file_latest demo_files_latest_only = Some demo_predictions
   \<and> outcome_of (track_home_runs ''2024-05-01'' demo_files_latest_only (Some demo_outcomes))
       = outcome_of (track_home_runs ''2024-05-01'' demo_files (Some demo_outcomes))
   \<and> prediction_file_latest (demo_files\<lparr>prediction_file_dated := None\<rparr>) = None
   \<and> track_home_runs ''2024-05-01'' (demo_files\<lparr>prediction_file_dated := None\<rparr>)
        (Some demo_outcomes)
       = Inr \<lparr>printed =
                [Print ''>> Tracking Today's Home Runs...'',
                 Print ''WARNING: Prediction file data/output/apex_top30_2024-05-01.csv not found. Trying latest predictions...'',
                 Print ''ERROR: No prediction file found. Cannot track home runs.''],
              returned = None, tracking_file = None, cumulative_file = None\<rparr>"
proof -
  have a: "prediction_file_dated demo_files_latest_only = None"
    and b: "prediction_file_latest demo_files_latest_only = Some demo_predictions"
    and f: "demo_files_latest_only\<lparr>prediction_file_dated := Some demo_predictions\<rparr>
              = demo_files\<lparr>prediction_file_latest := Some demo_predictions\<rparr>"
    by (simp_all add: demo_files_latest_only_def demo_files_def)
  have g: "track_home_runs y (demo_files\<lparr>prediction_file_latest := Some demo_predictions\<rparr>) x
             = track_home_runs y demo_files x" for y x
    by (simp add: track_home_runs_def demo_files_def)
  note c7 = C7_fallback_to_latest [OF a, of "''2024-05-01''" "Some demo_outcomes"]
  from c7 [THEN conjunct2, THEN spec, THEN mp, OF b, THEN conjunct1]
  have first: "outcome_of (track_home_runs ''2024-05-01'' demo_files_latest_only (Some demo_outcomes))
       = outcome_of (track_home_runs ''2024-05-01'' demo_files (Some demo_outcomes))"
    unfolding f g .
  have c: "prediction_file_dated (demo_files\<lparr>prediction_file_dated := None\<rparr>) = None"
    and d: "prediction_file_latest (demo_files\<lparr>prediction_file_dated := None\<rparr>) = None"
    by (simp_all add: demo_files_def)
  from C7_fallback_to_latest [OF c, of "''2024-05-01''" "Some demo_outcomes",
      THEN conjunct1, THEN mp, OF d]
  have "track_home_runs ''2024-05-01'' (demo_files\<lparr>prediction_file_dated := None\<rparr>)
        (Some demo_outcomes)
       = Inr \<lparr>printed =
                [Print ''>> Tracking Today's Home Runs...'',
                 Print (''WARNING: Prediction file data/output/apex_top30_'' @ ''2024-05-01''
                               @ ''.csv not found. Trying latest predictions...''),
                 Print ''ERROR: No prediction file found. Cannot track home runs.''],
              returned = None, tracking_file = None,
              cumulative_file = cumulative_tracking (demo_files\<lparr>prediction_file_dated := None\<rparr>)\<rparr>" .
  then have second: "track_home_runs ''2024-05-01'' (demo_files\<lparr>prediction_file_dated := None\<rparr>)
        (Some demo_outcomes)
       = Inr \<lparr>printed =
                [Print ''>> Tracking Today's Home Runs...'',
                 Print ''WARNING: Prediction file data/output/apex_top30_2024-05-01.csv not found. Trying latest predictions...'',
                 Print ''ERROR: No prediction file found. Cannot track home runs.''],
              returned = None, tracking_file = None, cumulative_file = None\<rparr>"
    by (simp add: demo_files_def)
  from a b first d second show ?thesis by (intro conjI)
qed

text \<open>
  With the dated file missing and the latest file present, the sample run returns and
  writes the tracking table.
\<close>

theorem C7_counterexample:
  "prediction_file_dated demo_files_latest_only = None
   \<and> map_sum id returned
        (track_home_runs ''2024-05-01'' demo_files_latest_only (Some demo_outcomes))
       = Inr (Some demo_tracking)
   \<and> map_sum id tracking_file
        (track_home_runs ''2024-05-01'' demo_files_latest_only (Some demo_outcomes))
       = Inr (Some demo_tracking)"
  by (simp add: tracker_eval demo_files_latest_only_def demo_predictions_def demo_outcomes_def
      demo_tracking_def)

text \<open>
  Claim C10. When the prediction table and the outcome table both have a column
  \<open>Team\<close>, the merge renames it to \<open>Team_x\<close> and \<open>Team_y\<close>, the lookup of \<open>Team\<close> in the
  miss loop finds nothing, and every \<open>Miss\<close> row of the returned table has the team
  \<open>Unknown\<close>.
\<close>

theorem C10_miss_team_unknown:
  assumes run: "track_home_runs yesterday files (Some actual) = Inr res"
    and ret: "returned res = Some tracking_df"
    and pred: "predictions_of files = Some predictions"
    and tp: "''Team'' \<in> set (df_columns predictions)"
    and ta: "''Team'' \<in> set (df_columns actual)"
  shows "\<forall>row \<in> set (result_rows tracking_df ''Miss'').
           map_of (zip (df_columns tracking_df) row) ''Team'' = Some (Str ''Unknown'')"
proof
  fix row assume row: "row \<in> set (result_rows tracking_df ''Miss'')"
  from track_home_runs_reconcile [OF run ret] pred obtain out where
    rec: "reconcile yesterday (cumulative_tracking files) out predictions (Some actual) = Inr res"
    by auto
  from reconcile_Some [OF rec ret] obtain hits merged1 misses merged2 surprises h m s where
    c: "pd_merge predictions actual ''Player'' Left_join True = Inr merged1"
    and d: "where_eq merged1 ''_merge'' (Str ''left_only'') = Inr misses"
    and h: "list_all2 (\<lambda>x d. hit_record yesterday x = Inr d) (iterrows hits) h"
    and m: "list_all2 (\<lambda>x d. miss_record yesterday x = Inr d) (iterrows misses) m"
    and s: "list_all2 (\<lambda>x d. surprise_record yesterday x = Inr d) (iterrows surprises) s"
    and df: "tracking_df = DataFrame (h @ m @ s)"
    by auto
  note shape = records_shape [OF h m s]
  from row obtain d where dm: "d \<in> set m" and rd: "row = map snd d"
    unfolding df tracking_result_rows [OF h m s] by auto
  from list_all2_member2 [OF m dm] obtain miss where
    miss: "miss \<in> set (iterrows misses)" and rec: "miss_record yesterday miss = Inr d" by blast
  have "df_columns misses = merged_columns predictions actual ''Player'' True"
    using c d by (auto simp: pd_merge_Inr where_eq_Inr)
  with Team_not_merged [OF tp ta] have "''Team'' \<notin> set (df_columns misses)" by simp
  with series_has_iterrows [OF miss] have "\<not> series_has miss ''Team''" by blast
  from miss_record_team [OF rec this] have "map_of d ''Team'' = Some (Str ''Unknown'')" .
  moreover from dm have "d \<in> set (h @ m @ s)" by simp
  ultimately show "map_of (zip (df_columns tracking_df) row) ''Team'' = Some (Str ''Unknown'')"
    unfolding df rd by (simp only: DataFrame_lookup [OF shape(1)])
qed

theorem C10_miss_team_unknown_witness:
  "''Team'' \<in> set (df_columns demo_predictions) \<and> ''Team'' \<in> set (df_columns demo_outcomes)
   \<and> (\<exists>res. track_home_runs ''2024-05-01'' demo_files (Some demo_outcomes) = Inr res
         \<and> returned res = Some demo_tracking
         \<and> result_rows demo_tracking ''Miss'' \<noteq> []
         \<and> list_all (\<lambda>row. map_of (zip (df_columns demo_tracking) row) ''Team''
                              = Some (Str ''Unknown''))
             (result_rows demo_tracking ''Miss''))"
proof -
  from returned_SomeD [OF track_demo] obtain res where
    run: "track_home_runs ''2024-05-01'' demo_files (Some demo_outcomes) = Inr res"
    and ret: "returned res = Some demo_tracking" by blast
  have pred: "predictions_of demo_files = Some demo_predictions"
    by (simp add: predictions_of_def demo_files_def)
  have tp: "''Team'' \<in> set (df_columns demo_predictions)"
    and ta: "''Team'' \<in> set (df_columns demo_outcomes)"
    by (simp_all add: demo_predictions_def demo_outcomes_def)
  from C10_miss_team_unknown [OF run ret pred tp ta]
  have "list_all (\<lambda>row. map_of (zip (df_columns demo_tracking) row) ''Team''
                              = Some (Str ''Unknown''))
             (result_rows demo_tracking ''Miss'')"
    unfolding list_all_iff .
  moreover have "result_rows demo_tracking ''Miss'' \<noteq> []"
    by (simp add: demo_tracking_rows(4))
  ultimately show ?thesis using tp ta run ret by (intro conjI exI [of _ res])
qed

section \<open>Properties of the Diagnostics\<close>






end
